theory Spec2Isabelle
  imports Main
begin

section \<open>Tokens (internal/core/parser/token.go)\<close>

text \<open>
  \<^verbatim>\<open>type TokenType string\<close>: a token type is a string, and the token-type constants are
  string constants. \<^verbatim>\<open>BITXOR\<close> and \<^verbatim>\<open>CARET\<close> are both the string \<^verbatim>\<open>"^"\<close>, so they are
  the same token type. \<^verbatim>\<open>INT\<close> and \<^verbatim>\<open>CONST\<close> are reserved words of the term language and
  carry a prime here.
\<close>

type_synonym TokenType = string

text \<open>Go's \<^verbatim>\<open>int\<close> fields hold line, column and byte counts; none is ever negative and
  none overflows on an input shorter than \<open>2^63\<close> bytes, so they are natural numbers.\<close>

record Token =
  Type :: TokenType
  Literal :: string
  Line :: nat
  Column :: nat
  Offset :: nat

abbreviation ILLEGAL :: TokenType where "ILLEGAL \<equiv> ''ILLEGAL''"
abbreviation EOF :: TokenType where "EOF \<equiv> ''EOF''"
abbreviation COMMENT :: TokenType where "COMMENT \<equiv> ''COMMENT''"
abbreviation NL :: TokenType where "NL \<equiv> ''NL''"
abbreviation INDENT :: TokenType where "INDENT \<equiv> ''INDENT''"
abbreviation DEDENT :: TokenType where "DEDENT \<equiv> ''_DEDENT''"
abbreviation IDENT :: TokenType where "IDENT \<equiv> ''IDENT''"
abbreviation INT' :: TokenType where "INT' \<equiv> ''INT''"
abbreviation FLOAT :: TokenType where "FLOAT \<equiv> ''FLOAT''"
abbreviation STRING :: TokenType where "STRING \<equiv> ''STRING''"
abbreviation RSTRING :: TokenType where "RSTRING \<equiv> ''RSTRING''"
abbreviation HEX :: TokenType where "HEX \<equiv> ''HEX''"
abbreviation BIN :: TokenType where "BIN \<equiv> ''BIN''"
abbreviation ASSIGN :: TokenType where "ASSIGN \<equiv> ''=''"
abbreviation PLUS :: TokenType where "PLUS \<equiv> ''+''"
abbreviation MINUS :: TokenType where "MINUS \<equiv> ''-''"
abbreviation BANG :: TokenType where "BANG \<equiv> ''!''"
abbreviation ASTERISK :: TokenType where "ASTERISK \<equiv> ''*''"
abbreviation SLASH :: TokenType where "SLASH \<equiv> ''/''"
abbreviation PERCENT :: TokenType where "PERCENT \<equiv> ''%''"
abbreviation POWER :: TokenType where "POWER \<equiv> ''**''"
abbreviation LT :: TokenType where "LT \<equiv> ''<''"
abbreviation GT :: TokenType where "GT \<equiv> ''>''"
abbreviation EQ :: TokenType where "EQ \<equiv> ''==''"
abbreviation NOT_EQ :: TokenType where "NOT_EQ \<equiv> ''!=''"
abbreviation LTE :: TokenType where "LTE \<equiv> ''<=''"
abbreviation GTE :: TokenType where "GTE \<equiv> ''>=''"
abbreviation AND :: TokenType where "AND \<equiv> ''and''"
abbreviation OR :: TokenType where "OR \<equiv> ''or''"
abbreviation NOT :: TokenType where "NOT \<equiv> ''not''"
abbreviation AMPAMP :: TokenType where "AMPAMP \<equiv> ''&&''"
abbreviation PIPEPIPE :: TokenType where "PIPEPIPE \<equiv> ''||''"
abbreviation PLUSEQ :: TokenType where "PLUSEQ \<equiv> ''+=''"
abbreviation MINUSEQ :: TokenType where "MINUSEQ \<equiv> ''-=''"
abbreviation ASTERISKEQ :: TokenType where "ASTERISKEQ \<equiv> ''*=''"
abbreviation SLASHEQ :: TokenType where "SLASHEQ \<equiv> ''/=''"
abbreviation PERCENTEQ :: TokenType where "PERCENTEQ \<equiv> ''%=''"
abbreviation AMPEQ :: TokenType where "AMPEQ \<equiv> ''&=''"
abbreviation PIPEEQ :: TokenType where "PIPEEQ \<equiv> ''|=''"
abbreviation CARETEQ :: TokenType where "CARETEQ \<equiv> ''^=''"
abbreviation LTLTEQ :: TokenType where "LTLTEQ \<equiv> ''<<=''"
abbreviation GTGTEQ :: TokenType where "GTGTEQ \<equiv> ''>>=''"
abbreviation POWEREQ :: TokenType where "POWEREQ \<equiv> ''**=''"
abbreviation BITAND :: TokenType where "BITAND \<equiv> ''&''"
abbreviation BITOR :: TokenType where "BITOR \<equiv> ''|''"
abbreviation BITXOR :: TokenType where "BITXOR \<equiv> ''^''"
abbreviation BITNOT :: TokenType where "BITNOT \<equiv> ''~''"
abbreviation LTLT :: TokenType where "LTLT \<equiv> ''<<''"
abbreviation GTGT :: TokenType where "GTGT \<equiv> ''>>''"
abbreviation DOT :: TokenType where "DOT \<equiv> ''.''"
abbreviation COMMA :: TokenType where "COMMA \<equiv> '',''"
abbreviation COLON :: TokenType where "COLON \<equiv> '':''"
abbreviation SEMICOLON :: TokenType where "SEMICOLON \<equiv> '';''"
abbreviation LPAREN :: TokenType where "LPAREN \<equiv> ''(''"
abbreviation RPAREN :: TokenType where "RPAREN \<equiv> '')''"
abbreviation LBRACE :: TokenType where "LBRACE \<equiv> ''{''"
abbreviation RBRACE :: TokenType where "RBRACE \<equiv> ''}''"
abbreviation LBRACKET :: TokenType where "LBRACKET \<equiv> ''[''"
abbreviation RBRACKET :: TokenType where "RBRACKET \<equiv> '']''"
abbreviation AT :: TokenType where "AT \<equiv> ''@''"
abbreviation DOLLAR :: TokenType where "DOLLAR \<equiv> ''$''"
abbreviation CARET :: TokenType where "CARET \<equiv> ''^''"
abbreviation ARROW :: TokenType where "ARROW \<equiv> ''->''"
abbreviation COLONASSIGN :: TokenType where "COLONASSIGN \<equiv> '':=''"
abbreviation FUNC :: TokenType where "FUNC \<equiv> ''func''"
abbreviation CLASS :: TokenType where "CLASS \<equiv> ''class''"
abbreviation EXTENDS :: TokenType where "EXTENDS \<equiv> ''extends''"
abbreviation CLASS_NAME :: TokenType where "CLASS_NAME \<equiv> ''class_name''"
abbreviation VAR :: TokenType where "VAR \<equiv> ''var''"
abbreviation CONST' :: TokenType where "CONST' \<equiv> ''const''"
abbreviation STATIC :: TokenType where "STATIC \<equiv> ''static''"
abbreviation ENUM :: TokenType where "ENUM \<equiv> ''enum''"
abbreviation SIGNAL :: TokenType where "SIGNAL \<equiv> ''signal''"
abbreviation PASS :: TokenType where "PASS \<equiv> ''pass''"
abbreviation RETURN :: TokenType where "RETURN \<equiv> ''return''"
abbreviation IF :: TokenType where "IF \<equiv> ''if''"
abbreviation ELIF :: TokenType where "ELIF \<equiv> ''elif''"
abbreviation ELSE :: TokenType where "ELSE \<equiv> ''else''"
abbreviation FOR :: TokenType where "FOR \<equiv> ''for''"
abbreviation WHILE :: TokenType where "WHILE \<equiv> ''while''"
abbreviation BREAK :: TokenType where "BREAK \<equiv> ''break''"
abbreviation CONTINUE :: TokenType where "CONTINUE \<equiv> ''continue''"
abbreviation MATCH :: TokenType where "MATCH \<equiv> ''match''"
abbreviation WHEN :: TokenType where "WHEN \<equiv> ''when''"
abbreviation IN :: TokenType where "IN \<equiv> ''in''"
abbreviation IS :: TokenType where "IS \<equiv> ''is''"
abbreviation AS :: TokenType where "AS \<equiv> ''as''"
abbreviation AWAIT :: TokenType where "AWAIT \<equiv> ''await''"
abbreviation BREAKPOINT :: TokenType where "BREAKPOINT \<equiv> ''breakpoint''"
abbreviation TRUE :: TokenType where "TRUE \<equiv> ''true''"
abbreviation FALSE :: TokenType where "FALSE \<equiv> ''false''"
abbreviation NULL :: TokenType where "NULL \<equiv> ''null''"
abbreviation SELF :: TokenType where "SELF \<equiv> ''self''"
abbreviation GET :: TokenType where "GET \<equiv> ''get''"
abbreviation SET :: TokenType where "SET \<equiv> ''set''"

definition keywords_map :: "(string \<times> TokenType) list" where
  "keywords_map =
    [
     (''func'', FUNC),
     (''class'', CLASS),
     (''extends'', EXTENDS),
     (''class_name'', CLASS_NAME),
     (''var'', VAR),
     (''const'', CONST'),
     (''static'', STATIC),
     (''enum'', ENUM),
     (''signal'', SIGNAL),
     (''pass'', PASS),
     (''return'', RETURN),
     (''if'', IF),
     (''elif'', ELIF),
     (''else'', ELSE),
     (''for'', FOR),
     (''while'', WHILE),
     (''break'', BREAK),
     (''continue'', CONTINUE),
     (''match'', MATCH),
     (''when'', WHEN),
     (''in'', IN),
     (''is'', IS),
     (''as'', AS),
     (''await'', AWAIT),
     (''breakpoint'', BREAKPOINT),
     (''true'', TRUE),
     (''false'', FALSE),
     (''null'', NULL),
     (''self'', SELF),
     (''get'', GET),
     (''set'', SET),
     (''and'', AND),
     (''or'', OR),
     (''not'', NOT)]"

definition LookupIdent :: "string \<Rightarrow> TokenType" where
  "LookupIdent ident = (case map_of keywords_map ident of Some tok \<Rightarrow> tok | None \<Rightarrow> IDENT)"

section \<open>Lexer\<close>

text \<open>A rune is a Unicode code point; Go's \<^verbatim>\<open>rune\<close> is \<^verbatim>\<open>int32\<close> and the lexer only holds
  decoded code points and \<open>0\<close> in it.\<close>

type_synonym rune = nat

text \<open>A run-time panic of the Go program, as a value.\<close>

datatype panic = SliceBoundsOutOfRange | IndexOutOfRange | NilPointerDereference

subsection \<open>What the lexer takes from Go's standard library\<close>

text \<open>
  \<^verbatim>\<open>unicode.IsLetter\<close> and \<^verbatim>\<open>unicode.IsDigit\<close> are table lookups of the standard library.
  On ASCII they are the letters \<^verbatim>\<open>A-Z a-z\<close> and the digits \<^verbatim>\<open>0-9\<close>; the tables for the code
  points from \<open>0x80\<close> on are not part of the repository and are a parameter of the model.
\<close>

record unicode =
  IsLetter :: "rune \<Rightarrow> bool"
  IsDigit :: "rune \<Rightarrow> bool"

definition isLetter :: "unicode \<Rightarrow> rune \<Rightarrow> bool" where
  "isLetter U c =
    (if c < 0x80 then (0x41 \<le> c \<and> c \<le> 0x5A) \<or> (0x61 \<le> c \<and> c \<le> 0x7A) else IsLetter U c)"

definition isDigit :: "unicode \<Rightarrow> rune \<Rightarrow> bool" where
  "isDigit U c = (if c < 0x80 then 0x30 \<le> c \<and> c \<le> 0x39 else IsDigit U c)"

definition isHexDigit :: "unicode \<Rightarrow> rune \<Rightarrow> bool" where
  "isHexDigit U c \<longleftrightarrow>
     isDigit U c \<or> (of_char CHR ''a'' \<le> c \<and> c \<le> of_char CHR ''f'')
       \<or> (of_char CHR ''A'' \<le> c \<and> c \<le> of_char CHR ''F'')"

definition isBinDigit :: "rune \<Rightarrow> bool" where
  "isBinDigit c \<longleftrightarrow> c = of_char CHR ''0'' \<or> c = of_char CHR ''1''"

definition RuneError :: rune where
  "RuneError = 0xFFFD"

text \<open>\<^verbatim>\<open>utf8.DecodeRuneInString\<close>: the first code point of a byte string and its width in
  bytes; \<open>(RuneError, 1)\<close> on a byte sequence that is not UTF-8, \<open>(RuneError, 0)\<close> on the
  empty string.\<close>

fun DecodeRuneInString :: "string \<Rightarrow> rune \<times> nat" where
  "DecodeRuneInString [] = (RuneError, 0)"
| "DecodeRuneInString (c0 # s) =
    (let b0 = (of_char c0 :: nat) in
     if b0 < 0x80 then (b0, 1)
     else if 0xC2 \<le> b0 \<and> b0 \<le> 0xDF then
       (case s of
          c1 # _ \<Rightarrow>
            (let b1 = (of_char c1 :: nat) in
             if 0x80 \<le> b1 \<and> b1 \<le> 0xBF then ((b0 - 0xC0) * 64 + (b1 - 0x80), 2)
             else (RuneError, 1))
        | _ \<Rightarrow> (RuneError, 1))
     else if 0xE0 \<le> b0 \<and> b0 \<le> 0xEF then
       (case s of
          c1 # c2 # _ \<Rightarrow>
            (let b1 = (of_char c1 :: nat); b2 = (of_char c2 :: nat) in
             if (if b0 = 0xE0 then 0xA0 else 0x80) \<le> b1
                \<and> b1 \<le> (if b0 = 0xED then 0x9F else 0xBF)
                \<and> 0x80 \<le> b2 \<and> b2 \<le> 0xBF
             then ((b0 - 0xE0) * 4096 + (b1 - 0x80) * 64 + (b2 - 0x80), 3)
             else (RuneError, 1))
        | _ \<Rightarrow> (RuneError, 1))
     else if 0xF0 \<le> b0 \<and> b0 \<le> 0xF4 then
       (case s of
          c1 # c2 # c3 # _ \<Rightarrow>
            (let b1 = (of_char c1 :: nat); b2 = (of_char c2 :: nat); b3 = (of_char c3 :: nat) in
             if (if b0 = 0xF0 then 0x90 else 0x80) \<le> b1
                \<and> b1 \<le> (if b0 = 0xF4 then 0x8F else 0xBF)
                \<and> 0x80 \<le> b2 \<and> b2 \<le> 0xBF \<and> 0x80 \<le> b3 \<and> b3 \<le> 0xBF
             then ((b0 - 0xF0) * 262144 + (b1 - 0x80) * 4096 + (b2 - 0x80) * 64 + (b3 - 0x80), 4)
             else (RuneError, 1))
        | _ \<Rightarrow> (RuneError, 1))
     else (RuneError, 1))"

definition byteChar :: "nat \<Rightarrow> char" where
  "byteChar n =
    Char (odd n) (odd (n div 2)) (odd (n div 4)) (odd (n div 8))
         (odd (n div 16)) (odd (n div 32)) (odd (n div 64)) (odd (n div 128))"

text \<open>The conversion \<^verbatim>\<open>string(r)\<close> of a rune: its UTF-8 encoding, and the encoding of
  \<open>U+FFFD\<close> for a value that is no code point.\<close>

definition runeString :: "rune \<Rightarrow> string" where
  "runeString r =
    (if r < 0x80 then [byteChar r]
     else if r < 0x800 then [byteChar (0xC0 + r div 64), byteChar (0x80 + r mod 64)]
     else if 0x10FFFF < r \<or> (0xD800 \<le> r \<and> r \<le> 0xDFFF)
       then [byteChar 0xEF, byteChar 0xBF, byteChar 0xBD]
     else if r < 0x10000
       then [byteChar (0xE0 + r div 4096), byteChar (0x80 + (r div 64) mod 64),
             byteChar (0x80 + r mod 64)]
     else [byteChar (0xF0 + r div 262144), byteChar (0x80 + (r div 4096) mod 64),
           byteChar (0x80 + (r div 64) mod 64), byteChar (0x80 + r mod 64)])"

text \<open>The slice expression \<^verbatim>\<open>s[lo:hi]\<close> of a string, which panics unless
  \<open>0 \<le> lo \<le> hi \<le> len(s)\<close>.\<close>

definition substr :: "string \<Rightarrow> int \<Rightarrow> int \<Rightarrow> panic + string" where
  "substr s lo hi =
    (if 0 \<le> lo \<and> lo \<le> hi \<and> hi \<le> int (length s)
     then Inr (take (nat (hi - lo)) (drop (nat lo) s))
     else Inl SliceBoundsOutOfRange)"

subsection \<open>The lexer state\<close>

record Lexer =
  input :: string
  position :: nat
  readPosition :: nat
  ch :: rune
  line :: nat
  column :: nat
  indentStack :: "nat list"
  indentLevel :: nat
  tokens :: "Token list"

definition readChar :: "Lexer \<Rightarrow> Lexer" where
  "readChar l =
    (let l1 = l\<lparr>position := readPosition l\<rparr>;
         l2 = (if length (input l1) \<le> readPosition l1 then l1\<lparr>ch := 0\<rparr>
               else (case DecodeRuneInString (drop (readPosition l1) (input l1)) of
                       (r, width) \<Rightarrow> l1\<lparr>ch := r, readPosition := readPosition l1 + width\<rparr>))
     in if ch l2 = of_char CHR 0x0A then l2\<lparr>line := line l2 + 1, column := 1\<rparr>
        else l2\<lparr>column := column l2 + 1\<rparr>)"

definition NewLexer :: "string \<Rightarrow> Lexer" where
  "NewLexer inp =
    readChar \<lparr>input = inp, position = 0, readPosition = 0, ch = 0, line = 1, column = 1,
              indentStack = [0], indentLevel = 0, tokens = []\<rparr>"

definition peekChar :: "Lexer \<Rightarrow> rune" where
  "peekChar l =
    (if length (input l) \<le> readPosition l then 0
     else fst (DecodeRuneInString (drop (readPosition l) (input l))))"

definition newToken :: "Lexer \<Rightarrow> TokenType \<Rightarrow> string \<Rightarrow> Token" where
  "newToken l tokenType literal =
    \<lparr>Type = tokenType, Literal = literal, Line = line l, Column = column l, Offset = position l\<rparr>"

text \<open>The termination measure of the scanning loops: the bytes not yet decoded, and one
  more while the current rune is not the end marker \<open>0\<close>.\<close>

definition lrem :: "Lexer \<Rightarrow> nat" where
  "lrem l = (length (input l) - readPosition l) + (if ch l = 0 then 0 else 1)"

lemma DecodeRuneInString_size_pos: "s \<noteq> [] \<Longrightarrow> 1 \<le> snd (DecodeRuneInString s)"
  by (cases s) (auto simp: Let_def split: list.splits)

lemma DecodeRuneInString_size_le: "snd (DecodeRuneInString s) \<le> length s"
  by (cases s) (auto simp: Let_def split: list.splits)

lemma readChar_fields [simp]:
  "input (readChar l) = input l"
  "position (readChar l) = readPosition l"
  "indentStack (readChar l) = indentStack l"
  "indentLevel (readChar l) = indentLevel l"
  "tokens (readChar l) = tokens l"
  by (simp_all add: readChar_def Let_def split: prod.splits)

lemma ch_readChar:
  "ch (readChar l) =
    (if length (input l) \<le> readPosition l then 0
     else fst (DecodeRuneInString (drop (readPosition l) (input l))))"
  by (simp add: readChar_def Let_def split: prod.splits)

lemma readPosition_readChar:
  "readPosition (readChar l) =
    (if length (input l) \<le> readPosition l then readPosition l
     else readPosition l + snd (DecodeRuneInString (drop (readPosition l) (input l))))"
  by (simp add: readChar_def Let_def split: prod.splits)

lemma lrem_readChar_le: "lrem (readChar l) \<le> lrem l"
proof (cases "length (input l) \<le> readPosition l")
  case True
  then show ?thesis by (simp add: lrem_def ch_readChar readPosition_readChar)
next
  case False
  then have "drop (readPosition l) (input l) \<noteq> []" by simp
  then have "1 \<le> snd (DecodeRuneInString (drop (readPosition l) (input l)))"
    by (rule DecodeRuneInString_size_pos)
  with False show ?thesis
    unfolding lrem_def ch_readChar readPosition_readChar by (simp split: if_splits) arith
qed

lemma lrem_readChar_less: "ch l \<noteq> 0 \<Longrightarrow> lrem (readChar l) < lrem l"
proof (cases "length (input l) \<le> readPosition l")
  case True
  assume "ch l \<noteq> 0"
  with True show ?thesis by (simp add: lrem_def ch_readChar readPosition_readChar)
next
  case False
  assume nz: "ch l \<noteq> 0"
  from False have "drop (readPosition l) (input l) \<noteq> []" by simp
  then have "1 \<le> snd (DecodeRuneInString (drop (readPosition l) (input l)))"
    by (rule DecodeRuneInString_size_pos)
  with False nz show ?thesis
    unfolding lrem_def ch_readChar readPosition_readChar by (simp split: if_splits) arith
qed

lemma isLetter_0 [simp]: "\<not> isLetter U 0"
  by (simp add: isLetter_def)

lemma isDigit_0 [simp]: "\<not> isDigit U 0"
  by (simp add: isDigit_def)

lemma isHexDigit_0 [simp]: "\<not> isHexDigit U 0"
  by (simp add: isHexDigit_def)

lemma isBinDigit_0 [simp]: "\<not> isBinDigit 0"
  by (simp add: isBinDigit_def)

lemma class_pos:
  "isLetter U c \<Longrightarrow> 0 < c" "isDigit U c \<Longrightarrow> 0 < c"
  "isHexDigit U c \<Longrightarrow> 0 < c" "isBinDigit c \<Longrightarrow> 0 < c"
  by (cases c; simp)+

subsection \<open>The scanning loops\<close>

function skipWhitespace :: "Lexer \<Rightarrow> Lexer" where
  "skipWhitespace l =
    (if ch l = of_char CHR '' '' \<or> ch l = of_char CHR 0x09 \<or> ch l = of_char CHR 0x0D
     then skipWhitespace (readChar l) else l)"
  by pat_completeness auto
termination
  by (relation "measure lrem") (auto intro!: lrem_readChar_less)

declare skipWhitespace.simps [simp del]

function readIdentifierLoop :: "unicode \<Rightarrow> Lexer \<Rightarrow> Lexer" where
  "readIdentifierLoop U l =
    (if isLetter U (ch l) \<or> isDigit U (ch l) \<or> ch l = of_char CHR ''_''
     then readIdentifierLoop U (readChar l) else l)"
  by pat_completeness auto
termination
  by (relation "measure (\<lambda>(U, l). lrem l)") (auto intro!: lrem_readChar_less dest: class_pos)

declare readIdentifierLoop.simps [simp del]

text \<open>The loop \<^verbatim>\<open>for isDigit(l.ch) || l.ch == '_' { l.readChar() }\<close> of \<^verbatim>\<open>readNumber\<close>.\<close>

function readDigits :: "unicode \<Rightarrow> Lexer \<Rightarrow> Lexer" where
  "readDigits U l =
    (if isDigit U (ch l) \<or> ch l = of_char CHR ''_'' then readDigits U (readChar l) else l)"
  by pat_completeness auto
termination
  by (relation "measure (\<lambda>(U, l). lrem l)") (auto intro!: lrem_readChar_less dest: class_pos)

declare readDigits.simps [simp del]

function readHexDigits :: "unicode \<Rightarrow> Lexer \<Rightarrow> Lexer" where
  "readHexDigits U l =
    (if isHexDigit U (ch l) \<or> ch l = of_char CHR ''_'' then readHexDigits U (readChar l) else l)"
  by pat_completeness auto
termination
  by (relation "measure (\<lambda>(U, l). lrem l)") (auto intro!: lrem_readChar_less dest: class_pos)

declare readHexDigits.simps [simp del]

function readBinDigits :: "Lexer \<Rightarrow> Lexer" where
  "readBinDigits l =
    (if isBinDigit (ch l) \<or> ch l = of_char CHR ''_'' then readBinDigits (readChar l) else l)"
  by pat_completeness auto
termination
  by (relation "measure lrem") (auto intro!: lrem_readChar_less dest: class_pos)

declare readBinDigits.simps [simp del]

text \<open>The loop of \<^verbatim>\<open>readString\<close>. A backslash consumes itself and the next rune. A newline
  inside the literal bumps \<^verbatim>\<open>l.line\<close> here, and \<^verbatim>\<open>readChar\<close> bumps it again when it reads
  a newline.\<close>

function readStringLoop :: "rune \<Rightarrow> Lexer \<Rightarrow> Lexer" where
  "readStringLoop quote l =
    (if ch l = of_char CHR 0x5C then readStringLoop quote (readChar (readChar l))
     else if ch l = quote \<or> ch l = 0 then l
     else readStringLoop quote
            (readChar (if ch l = of_char CHR 0x0A then l\<lparr>line := line l + 1, column := 1\<rparr> else l)))"
  by pat_completeness auto
termination
proof (relation "measure (\<lambda>(q, l). lrem l)", goal_cases)
  case 1
  show ?case by simp
next
  case (2 quote l)
  then have "ch l \<noteq> 0" by simp
  then have "lrem (readChar l) < lrem l" by (rule lrem_readChar_less)
  moreover have "lrem (readChar (readChar l)) \<le> lrem (readChar l)" by (rule lrem_readChar_le)
  ultimately show ?case by simp
next
  case (3 quote l)
  let ?l = "if ch l = of_char CHR 0x0A then l\<lparr>line := line l + 1, column := 1\<rparr> else l"
  from 3 have "ch ?l \<noteq> 0" by simp
  then have "lrem (readChar ?l) < lrem ?l" by (rule lrem_readChar_less)
  moreover have "lrem ?l = lrem l" by (simp add: lrem_def)
  ultimately show ?case by simp
qed

declare readStringLoop.simps [simp del]

function readRawStringLoop :: "rune \<Rightarrow> Lexer \<Rightarrow> Lexer" where
  "readRawStringLoop quote l =
    (if ch l = quote \<or> ch l = 0 then l
     else readRawStringLoop quote
            (readChar (if ch l = of_char CHR 0x0A then l\<lparr>line := line l + 1, column := 1\<rparr> else l)))"
  by pat_completeness auto
termination
proof (relation "measure (\<lambda>(q, l). lrem l)", goal_cases)
  case 1
  show ?case by simp
next
  case (2 quote l)
  let ?l = "if ch l = of_char CHR 0x0A then l\<lparr>line := line l + 1, column := 1\<rparr> else l"
  from 2 have "ch ?l \<noteq> 0" by simp
  then have "lrem (readChar ?l) < lrem ?l" by (rule lrem_readChar_less)
  moreover have "lrem ?l = lrem l" by (simp add: lrem_def)
  ultimately show ?case by simp
qed

declare readRawStringLoop.simps [simp del]

function readCommentLoop :: "Lexer \<Rightarrow> Lexer" where
  "readCommentLoop l =
    (if ch l \<noteq> of_char CHR 0x0A \<and> ch l \<noteq> 0 then readCommentLoop (readChar l) else l)"
  by pat_completeness auto
termination
  by (relation "measure lrem") (auto intro!: lrem_readChar_less dest: class_pos)

declare readCommentLoop.simps [simp del]

text \<open>The loop of \<^verbatim>\<open>NextToken\<close> that measures the indentation after a newline: a space
  counts 1, a tab 4.\<close>

function countIndent :: "Lexer \<Rightarrow> nat \<Rightarrow> nat \<times> Lexer" where
  "countIndent l indent =
    (if ch l = of_char CHR '' '' \<or> ch l = of_char CHR 0x09
     then countIndent (readChar l)
            (if ch l = of_char CHR '' '' then indent + 1
             else if ch l = of_char CHR 0x09 then indent + 4 else indent)
     else (indent, l))"
  by pat_completeness auto
termination
  by (relation "measure (\<lambda>(l, i). lrem l)") (auto intro!: lrem_readChar_less dest: class_pos)

declare countIndent.simps [simp del]

subsection \<open>Reading one token\<close>

text \<open>\<^verbatim>\<open>l.input[start:l.position]\<close>\<close>

definition sliceFrom :: "Lexer \<Rightarrow> nat \<Rightarrow> panic + string" where
  "sliceFrom l start = substr (input l) (int start) (int (position l))"

definition readIdentifier :: "unicode \<Rightarrow> Lexer \<Rightarrow> panic + string \<times> Lexer" where
  "readIdentifier U l =
    (let l' = readIdentifierLoop U l in
     case sliceFrom l' (position l) of Inl e \<Rightarrow> Inl e | Inr s \<Rightarrow> Inr (s, l'))"

definition readNumber :: "unicode \<Rightarrow> Lexer \<Rightarrow> panic + Token \<times> Lexer" where
  "readNumber U l =
    (if ch l = of_char CHR ''0'' \<and> (peekChar l = of_char CHR ''x'' \<or> peekChar l = of_char CHR ''X'')
     then
       (let l' = readHexDigits U (readChar (readChar l)) in
        case sliceFrom l' (position l) of
          Inl e \<Rightarrow> Inl e | Inr s \<Rightarrow> Inr (newToken l' HEX s, l'))
     else if ch l = of_char CHR ''0''
             \<and> (peekChar l = of_char CHR ''b'' \<or> peekChar l = of_char CHR ''B'')
     then
       (let l' = readBinDigits (readChar (readChar l)) in
        case sliceFrom l' (position l) of
          Inl e \<Rightarrow> Inl e | Inr s \<Rightarrow> Inr (newToken l' BIN s, l'))
     else
       (let l1 = readDigits U l;
            point = (ch l1 = of_char CHR ''.'' \<and> isDigit U (peekChar l1));
            l2 = (if point then readDigits U (readChar l1) else l1);
            expo = ((ch l2 = of_char CHR ''e'' \<or> ch l2 = of_char CHR ''E'')
                    \<and> (isDigit U (peekChar l2) \<or> peekChar l2 = of_char CHR ''+''
                        \<or> peekChar l2 = of_char CHR ''-''));
            l3 = (if expo then
                    (let l2a = readChar l2;
                         l2b = (if ch l2a = of_char CHR ''+'' \<or> ch l2a = of_char CHR ''-''
                                then readChar l2a else l2a)
                     in readDigits U l2b)
                  else l2);
            isFloat = (point \<or> expo)
        in case sliceFrom l3 (position l) of
             Inl e \<Rightarrow> Inl e
           | Inr s \<Rightarrow> Inr (newToken l3 (if isFloat then FLOAT else INT') s, l3)))"

definition readString :: "rune \<Rightarrow> Lexer \<Rightarrow> panic + string \<times> Lexer" where
  "readString quote l =
    (let l1 = readStringLoop quote (readChar l);
         l2 = (if ch l1 = quote then readChar l1 else l1)
     in case sliceFrom l2 (position l) of Inl e \<Rightarrow> Inl e | Inr s \<Rightarrow> Inr (s, l2))"

text \<open>\<^verbatim>\<open>readRawString\<close> returns \<^verbatim>\<open>l.input[position : l.position-1]\<close>: the end of the slice
  is one byte before the current position, whether or not a closing quote was consumed.\<close>

definition readRawString :: "rune \<Rightarrow> Lexer \<Rightarrow> panic + string \<times> Lexer" where
  "readRawString quote l =
    (let l1 = readRawStringLoop quote l;
         l2 = (if ch l1 = quote then readChar l1 else l1)
     in case substr (input l2) (int (position l)) (int (position l2) - 1) of
          Inl e \<Rightarrow> Inl e | Inr s \<Rightarrow> Inr (s, l2))"

definition readComment :: "Lexer \<Rightarrow> panic + string \<times> Lexer" where
  "readComment l =
    (let l' = readCommentLoop l in
     case sliceFrom l' (position l) of Inl e \<Rightarrow> Inl e | Inr s \<Rightarrow> Inr (s, l'))"

text \<open>The loop of \<^verbatim>\<open>handleIndentation\<close> that pops the stack, one \<^verbatim>\<open>DEDENT\<close> per pop.\<close>

function dedentLoop :: "Lexer \<Rightarrow> nat \<Rightarrow> Lexer" where
  "dedentLoop l indent =
    (if 0 < length (indentStack l) \<and> indent < last (indentStack l)
     then dedentLoop (l\<lparr>indentStack := butlast (indentStack l),
                         tokens := tokens l @ [newToken l DEDENT '''']\<rparr>) indent
     else l)"
  by pat_completeness auto
termination
  by (relation "measure (\<lambda>(l, i). length (indentStack l))") auto

declare dedentLoop.simps [simp del]

text \<open>\<^verbatim>\<open>l.indentStack[len(l.indentStack)-1]\<close> panics on an empty stack.\<close>

definition handleIndentation :: "Lexer \<Rightarrow> nat \<Rightarrow> panic + Lexer" where
  "handleIndentation l indent =
    (if indentStack l = [] then Inl IndexOutOfRange
     else
       (let currentIndent = last (indentStack l) in
        if currentIndent < indent then
          Inr (l\<lparr>indentStack := indentStack l @ [indent],
                 tokens := tokens l @ [newToken l INDENT '''']\<rparr>)
        else if indent < currentIndent then
          (let l1 = dedentLoop l indent in
           if length (indentStack l1) = 0 \<or> indent \<noteq> last (indentStack l1)
           then Inr (l1\<lparr>tokens := tokens l1 @ [newToken l1 ILLEGAL ''invalid indentation'']\<rparr>)
           else Inr l1)
        else Inr l))"

text \<open>The end of \<^verbatim>\<open>NextToken\<close> for the cases that fall out of the switch:
  \<^verbatim>\<open>l.readChar(); return tok\<close>.\<close>

definition finish :: "Lexer \<Rightarrow> Token \<Rightarrow> panic + Token \<times> Lexer" where
  "finish l tok = Inr (tok, readChar l)"

text \<open>The switch of \<^verbatim>\<open>NextToken\<close> on the current rune, in the order of the source. In a
  two-character operator the first rune is saved, \<^verbatim>\<open>readChar\<close> moves to the second and the
  token takes its position there.\<close>

definition scanToken :: "unicode \<Rightarrow> Lexer \<Rightarrow> panic + Token \<times> Lexer" where
  "scanToken U l =
    (let c = ch l; pk = peekChar l; l1 = readChar l in
     if c = of_char CHR ''+'' then
       (if pk = of_char CHR ''='' then finish l1 (newToken l1 PLUSEQ (runeString c @ ''=''))
        else finish l (newToken l PLUS (runeString c)))
     else if c = of_char CHR ''-'' then
       (if pk = of_char CHR ''='' then finish l1 (newToken l1 MINUSEQ (runeString c @ ''=''))
        else if pk = of_char CHR ''>'' then finish l1 (newToken l1 ARROW (runeString c @ ''>''))
        else finish l (newToken l MINUS (runeString c)))
     else if c = of_char CHR ''*'' then
       (if pk = of_char CHR ''*'' then
          (if peekChar l1 = of_char CHR ''='' then
             (let l2 = readChar l1 in finish l2 (newToken l2 POWEREQ (runeString c @ ''*='')))
           else finish l1 (newToken l1 POWER (runeString c @ ''*'')))
        else if pk = of_char CHR ''='' then finish l1 (newToken l1 ASTERISKEQ (runeString c @ ''=''))
        else finish l (newToken l ASTERISK (runeString c)))
     else if c = of_char CHR ''/'' then
       (if pk = of_char CHR ''='' then finish l1 (newToken l1 SLASHEQ (runeString c @ ''=''))
        else finish l (newToken l SLASH (runeString c)))
     else if c = of_char CHR ''%'' then
       (if pk = of_char CHR ''='' then finish l1 (newToken l1 PERCENTEQ (runeString c @ ''=''))
        else finish l (newToken l PERCENT (runeString c)))
     else if c = of_char CHR ''&'' then
       (if pk = of_char CHR ''&'' then finish l1 (newToken l1 AMPAMP (runeString c @ ''&''))
        else if pk = of_char CHR ''='' then finish l1 (newToken l1 AMPEQ (runeString c @ ''=''))
        else finish l (newToken l BITAND (runeString c)))
     else if c = of_char CHR ''|'' then
       (if pk = of_char CHR ''|'' then finish l1 (newToken l1 PIPEPIPE (runeString c @ ''|''))
        else if pk = of_char CHR ''='' then finish l1 (newToken l1 PIPEEQ (runeString c @ ''=''))
        else finish l (newToken l BITOR (runeString c)))
     else if c = of_char CHR ''^'' then
       (if pk = of_char CHR ''='' then finish l1 (newToken l1 CARETEQ (runeString c @ ''=''))
        else finish l (newToken l CARET (runeString c)))
     else if c = of_char CHR ''~'' then finish l (newToken l BITNOT (runeString c))
     else if c = of_char CHR ''<'' then
       (if pk = of_char CHR ''='' then finish l1 (newToken l1 LTE (runeString c @ ''=''))
        else if pk = of_char CHR ''<'' then
          (if peekChar l1 = of_char CHR ''='' then
             (let l2 = readChar l1 in finish l2 (newToken l2 LTLTEQ (runeString c @ ''<='')))
           else finish l1 (newToken l1 LTLT (runeString c @ ''<'')))
        else finish l (newToken l LT (runeString c)))
     else if c = of_char CHR ''>'' then
       (if pk = of_char CHR ''='' then finish l1 (newToken l1 GTE (runeString c @ ''=''))
        else if pk = of_char CHR ''>'' then
          (if peekChar l1 = of_char CHR ''='' then
             (let l2 = readChar l1 in finish l2 (newToken l2 GTGTEQ (runeString c @ ''>='')))
           else finish l1 (newToken l1 GTGT (runeString c @ ''>'')))
        else finish l (newToken l GT (runeString c)))
     else if c = of_char CHR ''='' then
       (if pk = of_char CHR ''='' then finish l1 (newToken l1 EQ (runeString c @ ''=''))
        else finish l (newToken l ASSIGN (runeString c)))
     else if c = of_char CHR ''!'' then
       (if pk = of_char CHR ''='' then finish l1 (newToken l1 NOT_EQ (runeString c @ ''=''))
        else finish l (newToken l BANG (runeString c)))
     else if c = of_char CHR ''.'' then finish l (newToken l DOT (runeString c))
     else if c = of_char CHR '','' then finish l (newToken l COMMA (runeString c))
     else if c = of_char CHR '':'' then
       (if pk = of_char CHR ''='' then finish l1 (newToken l1 COLONASSIGN (runeString c @ ''=''))
        else finish l (newToken l COLON (runeString c)))
     else if c = of_char CHR '';'' then finish l (newToken l SEMICOLON (runeString c))
     else if c = of_char CHR ''('' then finish l (newToken l LPAREN (runeString c))
     else if c = of_char CHR '')'' then finish l (newToken l RPAREN (runeString c))
     else if c = of_char CHR ''{'' then finish l (newToken l LBRACE (runeString c))
     else if c = of_char CHR ''}'' then finish l (newToken l RBRACE (runeString c))
     else if c = of_char CHR ''['' then finish l (newToken l LBRACKET (runeString c))
     else if c = of_char CHR '']'' then finish l (newToken l RBRACKET (runeString c))
     else if c = of_char CHR ''@'' then finish l (newToken l AT (runeString c))
     else if c = of_char CHR ''$'' then finish l (newToken l DOLLAR (runeString c))
     else if c = of_char CHR ''#'' then
       (case readComment l of
          Inl e \<Rightarrow> Inl e
        | Inr (s, l') \<Rightarrow>
            Inr (\<lparr>Type = COMMENT, Literal = s, Line = line l, Column = column l,
                  Offset = position l\<rparr>, l'))
     else if c = of_char CHR 0x22 \<or> c = of_char CHR 0x27 then
       (case readString c l of
          Inl e \<Rightarrow> Inl e
        | Inr (s, l') \<Rightarrow>
            Inr (\<lparr>Type = STRING, Literal = s, Line = line l, Column = column l,
                  Offset = position l\<rparr>, l'))
     else if c = of_char CHR ''r'' then
       (if pk = of_char CHR 0x22 \<or> pk = of_char CHR 0x27 then
          (let quote = ch l1; l2 = readChar l1 in
           case readRawString quote l2 of
             Inl e \<Rightarrow> Inl e
           | Inr (str, l') \<Rightarrow>
               Inr (\<lparr>Type = RSTRING,
                     Literal = ''r'' @ runeString quote @ str @ runeString quote,
                     Line = line l', Column = column l, Offset = position l\<rparr>, l'))
        else
          (case readIdentifier U l of
             Inl e \<Rightarrow> Inl e
           | Inr (s, l') \<Rightarrow>
               Inr (\<lparr>Type = LookupIdent s, Literal = s, Line = line l, Column = column l,
                     Offset = position l\<rparr>, l')))
     else if c = of_char CHR 0x0A then
       (let tok = newToken l NL [CHR 0x0A] in
        case countIndent l1 0 of
          (indent, l2) \<Rightarrow>
            (case handleIndentation l2 indent of
               Inl e \<Rightarrow> Inl e | Inr l3 \<Rightarrow> Inr (tok, l3)))
     else if c = 0 then
       Inr (\<lparr>Type = EOF, Literal = '''', Line = line l, Column = column l,
             Offset = position l\<rparr>, l)
     else if isLetter U c \<or> c = of_char CHR ''_'' then
       (case readIdentifier U l of
          Inl e \<Rightarrow> Inl e
        | Inr (s, l') \<Rightarrow>
            Inr (\<lparr>Type = LookupIdent s, Literal = s, Line = line l, Column = column l,
                  Offset = position l\<rparr>, l'))
     else if isDigit U c then readNumber U l
     else finish l (newToken l ILLEGAL (runeString c)))"

text \<open>\<^verbatim>\<open>NextToken\<close>: a queued token first; otherwise skip blanks and scan.\<close>

definition NextToken :: "unicode \<Rightarrow> Lexer \<Rightarrow> panic + Token \<times> Lexer" where
  "NextToken U l =
    (case tokens l of
       tok # rest \<Rightarrow> Inr (tok, l\<lparr>tokens := rest\<rparr>)
     | [] \<Rightarrow> scanToken U (skipWhitespace l))"

section \<open>Facts about the lexer\<close>

lemma newToken_upd [simp]:
  "newToken (l\<lparr>indentStack := s\<rparr>) = newToken l"
  "newToken (l\<lparr>tokens := t\<rparr>) = newToken l"
  by (simp_all add: newToken_def fun_eq_iff)

lemma dedentLoop_eq:
  "dedentLoop l indent =
    l\<lparr>indentStack := rev (dropWhile (\<lambda>w. indent < w) (rev (indentStack l))),
      tokens := tokens l @ replicate (length (takeWhile (\<lambda>w. indent < w) (rev (indentStack l))))
                                     (newToken l DEDENT '''')\<rparr>"
proof (induction l indent rule: dedentLoop.induct)
  case (1 l indent)
  show ?case
  proof (cases "0 < length (indentStack l) \<and> indent < last (indentStack l)")
    case True
    then have s: "indentStack l = butlast (indentStack l) @ [last (indentStack l)]" by simp
    have r: "rev (indentStack l) = last (indentStack l) # rev (butlast (indentStack l))"
      by (subst s) simp
    from True have "dedentLoop l indent =
        dedentLoop (l\<lparr>indentStack := butlast (indentStack l),
                         tokens := tokens l @ [newToken l DEDENT '''']\<rparr>) indent"
      by (subst dedentLoop.simps) simp
    also have "\<dots> = l\<lparr>indentStack := rev (dropWhile (\<lambda>w. indent < w) (rev (indentStack l))),
      tokens := tokens l @ replicate (length (takeWhile (\<lambda>w. indent < w) (rev (indentStack l))))
                                     (newToken l DEDENT '''')\<rparr>"
      using True by (subst "1.IH") (simp_all add: r replicate_app_Cons_same)
    finally show ?thesis .
  next
    case False
    then have "dedentLoop l indent = l" by (subst dedentLoop.simps) auto
    moreover from False have "dropWhile (\<lambda>w. indent < w) (rev (indentStack l)) = rev (indentStack l)"
      and "takeWhile (\<lambda>w. indent < w) (rev (indentStack l)) = []"
      by (cases "indentStack l" rule: rev_cases; simp)+
    ultimately show ?thesis by simp
  qed
qed

definition lexer_inv :: "Lexer \<Rightarrow> bool" where
  "lexer_inv l \<longleftrightarrow> position l \<le> readPosition l \<and> readPosition l \<le> length (input l)"

definition same_queue :: "Lexer \<Rightarrow> Lexer \<Rightarrow> bool" where
  "same_queue l l' \<longleftrightarrow>
     input l' = input l \<and> indentStack l' = indentStack l \<and> indentLevel l' = indentLevel l
       \<and> tokens l' = tokens l"

definition advances :: "Lexer \<Rightarrow> Lexer \<Rightarrow> bool" where
  "advances l l' \<longleftrightarrow>
     same_queue l l' \<and> lrem l' \<le> lrem l
       \<and> (lexer_inv l \<longrightarrow> lexer_inv l' \<and> position l \<le> position l')"

lemma advances_refl [simp]: "advances l l"
  by (simp add: advances_def same_queue_def)

lemma advances_trans: "advances l l1 \<Longrightarrow> advances l1 l2 \<Longrightarrow> advances l l2"
  by (auto simp: advances_def same_queue_def)

lemma lexer_inv_readChar: "lexer_inv l \<Longrightarrow> lexer_inv (readChar l)"
  using DecodeRuneInString_size_le [of "drop (readPosition l) (input l)"]
  by (auto simp: lexer_inv_def readPosition_readChar)

lemma advances_readChar [simp]: "advances l (readChar l)"
  by (simp add: advances_def same_queue_def lrem_readChar_le lexer_inv_readChar)
     (simp add: lexer_inv_def)

lemma advances_readChar2: "advances l l1 \<Longrightarrow> advances l (readChar l1)"
  by (erule advances_trans) simp

lemma advances_line [simp]: "advances l (l\<lparr>line := a, column := b\<rparr>)"
  by (simp add: advances_def same_queue_def lrem_def lexer_inv_def)

lemma advances_skipWhitespace [simp]: "advances l (skipWhitespace l)"
proof (induction l rule: skipWhitespace.induct)
  case (1 l)
  show ?case
    by (subst skipWhitespace.simps) (auto simp del: of_char_Char intro: advances_trans [OF advances_readChar] 1)
qed

lemma advances_readIdentifierLoop [simp]: "advances l (readIdentifierLoop U l)"
proof (induction U l rule: readIdentifierLoop.induct)
  case (1 U l)
  show ?case
    by (subst readIdentifierLoop.simps) (auto simp del: of_char_Char intro: advances_trans [OF advances_readChar] 1)
qed

lemma advances_readDigits [simp]: "advances l (readDigits U l)"
proof (induction U l rule: readDigits.induct)
  case (1 U l)
  show ?case
    by (subst readDigits.simps) (auto simp del: of_char_Char intro: advances_trans [OF advances_readChar] 1)
qed

lemma advances_readHexDigits [simp]: "advances l (readHexDigits U l)"
proof (induction U l rule: readHexDigits.induct)
  case (1 U l)
  show ?case
    by (subst readHexDigits.simps) (auto simp del: of_char_Char intro: advances_trans [OF advances_readChar] 1)
qed

lemma advances_readBinDigits [simp]: "advances l (readBinDigits l)"
proof (induction l rule: readBinDigits.induct)
  case (1 l)
  show ?case
    by (subst readBinDigits.simps) (auto simp del: of_char_Char intro: advances_trans [OF advances_readChar] 1)
qed

lemma advances_readCommentLoop [simp]: "advances l (readCommentLoop l)"
proof (induction l rule: readCommentLoop.induct)
  case (1 l)
  show ?case
    by (subst readCommentLoop.simps) (auto simp del: of_char_Char intro: advances_trans [OF advances_readChar] 1)
qed

lemma advances_newline_step:
  "advances l (readChar (if ch l = of_char CHR 0x0A then l\<lparr>line := line l + 1, column := 1\<rparr> else l))"
proof -
  have "advances l (readChar (l\<lparr>line := line l + 1, column := 1\<rparr>))"
    by (rule advances_trans [OF advances_line advances_readChar])
  then show ?thesis by simp
qed

lemma advances_readStringLoop [simp]: "advances l (readStringLoop q l)"
proof (induction q l rule: readStringLoop.induct)
  case (1 q l)
  show ?case
  proof (cases "ch l = of_char CHR 0x5C")
    case True
    then have "readStringLoop q l = readStringLoop q (readChar (readChar l))"
      by (subst readStringLoop.simps) (simp del: of_char_Char)
    moreover have "advances l (readChar (readChar l))"
      by (rule advances_readChar2) simp
    ultimately show ?thesis using "1.IH"(1) [OF True] by (auto intro: advances_trans)
  next
    case False
    show ?thesis
    proof (cases "ch l = q \<or> ch l = 0")
      case True
      with False show ?thesis by (subst readStringLoop.simps) (auto simp del: of_char_Char)
    next
      case stop: False
      with False have "readStringLoop q l = readStringLoop q
            (readChar (if ch l = of_char CHR 0x0A then l\<lparr>line := line l + 1, column := 1\<rparr> else l))"
        by (subst readStringLoop.simps) (simp del: of_char_Char)
      then show ?thesis
        using "1.IH"(2) [OF False stop] advances_newline_step [of l]
        by (auto intro: advances_trans)
    qed
  qed
qed

lemma advances_readRawStringLoop [simp]: "advances l (readRawStringLoop q l)"
proof (induction q l rule: readRawStringLoop.induct)
  case (1 q l)
  show ?case
  proof (cases "ch l = q \<or> ch l = 0")
    case True
    then show ?thesis by (subst readRawStringLoop.simps) (auto simp del: of_char_Char)
  next
    case False
    then have "readRawStringLoop q l = readRawStringLoop q
            (readChar (if ch l = of_char CHR 0x0A then l\<lparr>line := line l + 1, column := 1\<rparr> else l))"
      by (subst readRawStringLoop.simps) (simp del: of_char_Char)
    then show ?thesis
      using "1.IH" [OF False] advances_newline_step [of l]
      by (auto intro: advances_trans)
  qed
qed

lemma advances_countIndent: "countIndent l i = (n, l') \<Longrightarrow> advances l l'"
proof (induction l i arbitrary: n l' rule: countIndent.induct)
  case (1 l indent)
  show ?case
  proof (cases "ch l = of_char CHR '' '' \<or> ch l = of_char CHR 0x09")
    case True
    with "1.prems" have "countIndent (readChar l)
            (if ch l = of_char CHR '' '' then indent + 1
             else if ch l = of_char CHR 0x09 then indent + 4 else indent) = (n, l')"
      by (subst (asm) countIndent.simps) (simp del: of_char_Char)
    from "1.IH" [OF True this] show ?thesis
      by (rule advances_trans [OF advances_readChar])
  next
    case False
    with "1.prems" show ?thesis
      by (subst (asm) countIndent.simps) (auto simp del: of_char_Char)
  qed
qed


lemma advances_readChar3: "advances l (readChar (readChar (readChar l)))"
  by (intro advances_readChar2) simp

lemma readIdentifierLoop_first:
  "isLetter U (ch l) \<or> isDigit U (ch l) \<or> ch l = of_char CHR ''_'' \<Longrightarrow>
   advances (readChar l) (readIdentifierLoop U l)"
  by (subst readIdentifierLoop.simps) (simp del: of_char_Char)

lemma readDigits_first:
  "isDigit U (ch l) \<Longrightarrow> advances (readChar l) (readDigits U l)"
  by (subst readDigits.simps) (simp del: of_char_Char)

lemma readCommentLoop_first:
  "ch l = of_char CHR ''#'' \<Longrightarrow> advances (readChar l) (readCommentLoop l)"
  by (subst readCommentLoop.simps) simp

lemma sliceFrom_ok:
  "lexer_inv l' \<Longrightarrow> start \<le> position l' \<Longrightarrow> \<exists>s. sliceFrom l' start = Inr s"
  by (simp add: sliceFrom_def substr_def lexer_inv_def)

lemma LookupIdent_cases:
  "LookupIdent s = IDENT \<or> LookupIdent s \<in> snd ` set keywords_map"
  by (auto simp: LookupIdent_def split: option.splits dest!: map_of_SomeD intro: rev_image_eqI)

lemma LookupIdent_not_special:
  "LookupIdent s \<noteq> EOF" "LookupIdent s \<noteq> INDENT" "LookupIdent s \<noteq> DEDENT"
  "LookupIdent s \<noteq> NL"
  using LookupIdent_cases [of s] by (auto simp: keywords_map_def)

definition plain :: "Token \<Rightarrow> bool" where
  "plain t \<longleftrightarrow> Type t \<noteq> EOF \<and> Type t \<noteq> INDENT \<and> Type t \<noteq> DEDENT \<and> Type t \<noteq> NL"

lemma readIdentifier_adv:
  assumes "readIdentifier U l = Inr (s, l')"
    and "isLetter U (ch l) \<or> isDigit U (ch l) \<or> ch l = of_char CHR ''_''"
  shows "advances (readChar l) l'"
  using assms readIdentifierLoop_first [of U l]
  by (auto simp: readIdentifier_def Let_def split: sum.splits simp del: of_char_Char)

lemma sliceFrom_tok:
  "(case sliceFrom l' start of Inl e \<Rightarrow> Inl e | Inr s \<Rightarrow> Inr (newToken l' ty s, l')) = Inr (tok, l2)
   \<Longrightarrow> l2 = l' \<and> Type tok = ty"
  by (auto simp: newToken_def split: sum.splits)

lemma readNumber_adv:
  assumes "readNumber U l = Inr (tok, l')" and "isDigit U (ch l)"
  shows "advances (readChar l) l' \<and> plain tok"
proof -
  have a: "advances (readChar l) (readDigits U l)" using assms(2) by (rule readDigits_first)
  have b: "\<And>x. advances (readChar l) x \<Longrightarrow> advances (readChar l) (readDigits U (readChar x))"
    by (blast intro: advances_trans advances_readChar2 advances_readDigits)
  have c: "\<And>x. advances (readChar l) x \<Longrightarrow> advances (readChar l) (readDigits U (readChar (readChar x)))"
    by (blast intro: advances_trans advances_readChar2 advances_readDigits)
  have h: "advances (readChar l) (readHexDigits U (readChar (readChar l)))"
    by (blast intro: advances_trans advances_readChar advances_readHexDigits)
  have bn: "advances (readChar l) (readBinDigits (readChar (readChar l)))"
    by (blast intro: advances_trans advances_readChar advances_readBinDigits)
  let ?hex = "ch l = of_char CHR ''0'' \<and> (peekChar l = of_char CHR ''x'' \<or> peekChar l = of_char CHR ''X'')"
  let ?bin = "ch l = of_char CHR ''0'' \<and> (peekChar l = of_char CHR ''b'' \<or> peekChar l = of_char CHR ''B'')"
  show ?thesis
  proof (cases ?hex)
    case True
    with assms(1) have "(case sliceFrom (readHexDigits U (readChar (readChar l))) (position l) of
          Inl e \<Rightarrow> Inl e
        | Inr s \<Rightarrow> Inr (newToken (readHexDigits U (readChar (readChar l))) HEX s,
                       readHexDigits U (readChar (readChar l)))) = Inr (tok, l')"
      by (simp add: readNumber_def Let_def del: of_char_Char)
    from sliceFrom_tok [OF this] h show ?thesis by (simp add: plain_def)
  next
    case nh: False
    show ?thesis
    proof (cases ?bin)
      case True
      with nh assms(1) have "(case sliceFrom (readBinDigits (readChar (readChar l))) (position l) of
          Inl e \<Rightarrow> Inl e
        | Inr s \<Rightarrow> Inr (newToken (readBinDigits (readChar (readChar l))) BIN s,
                       readBinDigits (readChar (readChar l)))) = Inr (tok, l')"
        by (simp add: readNumber_def Let_def del: of_char_Char)
      from sliceFrom_tok [OF this] bn show ?thesis by (simp add: plain_def)
    next
      case nb: False
      define l1 where "l1 = readDigits U l"
      define point where "point = (ch l1 = of_char CHR ''.'' \<and> isDigit U (peekChar l1))"
      define l2 where "l2 = (if point then readDigits U (readChar l1) else l1)"
      define expo where "expo = ((ch l2 = of_char CHR ''e'' \<or> ch l2 = of_char CHR ''E'')
                    \<and> (isDigit U (peekChar l2) \<or> peekChar l2 = of_char CHR ''+''
                        \<or> peekChar l2 = of_char CHR ''-''))"
      define l3 where "l3 = (if expo then
                    (let l2a = readChar l2;
                         l2b = (if ch l2a = of_char CHR ''+'' \<or> ch l2a = of_char CHR ''-''
                                then readChar l2a else l2a)
                     in readDigits U l2b)
                  else l2)"
      have a2: "advances (readChar l) l2" using a b by (simp add: l2_def l1_def)
      then have a3: "advances (readChar l) l3"
        using b c by (simp add: l3_def Let_def del: of_char_Char)
      have "readNumber U l = (case sliceFrom l3 (position l) of Inl e \<Rightarrow> Inl e
             | Inr s \<Rightarrow> Inr (newToken l3 (if point \<or> expo then FLOAT else INT') s, l3))"
        unfolding readNumber_def if_not_P [OF nh] if_not_P [OF nb] l3_def l2_def l1_def
          point_def expo_def Let_def by (rule refl)
      with assms(1)
      have "(case sliceFrom l3 (position l) of Inl e \<Rightarrow> Inl e
             | Inr s \<Rightarrow> Inr (newToken l3 (if point \<or> expo then FLOAT else INT') s, l3)) = Inr (tok, l')"
        by simp
      from sliceFrom_tok [OF this] a3 show ?thesis by (auto simp: plain_def)
    qed
  qed
qed

lemma readString_adv:
  "readString q l = Inr (s, l') \<Longrightarrow> advances (readChar l) l'"
  by (auto simp: readString_def Let_def split: sum.splits if_splits simp del: of_char_Char
           intro: advances_trans advances_readChar2 advances_readStringLoop)

lemma readString_ok:
  assumes "lexer_inv l"
  shows "\<exists>s l'. readString q l = Inr (s, l')"
proof -
  let ?l1 = "readStringLoop q (readChar l)"
  let ?l2 = "if ch ?l1 = q then readChar ?l1 else ?l1"
  have "advances l ?l1"
    by (rule advances_trans [OF advances_readChar advances_readStringLoop])
  then have "advances l ?l2"
    by (auto intro: advances_readChar2)
  with assms have "lexer_inv ?l2" "position l \<le> position ?l2" by (auto simp: advances_def)
  from sliceFrom_ok [OF this] show ?thesis
    by (auto simp: readString_def Let_def)
qed

lemma readRawString_adv:
  "readRawString q l = Inr (s, l') \<Longrightarrow> advances l l'"
  by (auto simp: readRawString_def Let_def split: sum.splits if_splits simp del: of_char_Char
           intro: advances_trans advances_readChar2 advances_readRawStringLoop)

lemma readComment_adv:
  "readComment l = Inr (s, l') \<Longrightarrow> ch l = of_char CHR ''#'' \<Longrightarrow> advances (readChar l) l'"
  using readCommentLoop_first [of l]
  by (auto simp: readComment_def Let_def split: sum.splits simp del: of_char_Char)

lemma finish_eq: "finish lx tok = Inr (t, l') \<longleftrightarrow> t = tok \<and> l' = readChar lx"
  by (auto simp: finish_def)

lemma r_is_letter: "isLetter U 114"
  by (simp add: isLetter_def)

lemma readRawString_adv2:
  "readRawString q (readChar (readChar l)) = Inr (s, l') \<Longrightarrow> advances (readChar l) l'"
  by (drule readRawString_adv) (erule advances_trans [OF advances_readChar])

lemmas reader_adv = readComment_adv [simplified] readString_adv readIdentifier_adv [simplified]
  readRawString_adv2

lemma scanToken_cases:
  assumes "scanToken U l = Inr (tok, l')"
  shows "(ch l = 0 \<and> l' = l \<and> Type tok = EOF)
       \<or> (ch l = of_char CHR 0x0A \<and> Type tok = NL
            \<and> (\<exists>ind l2. countIndent (readChar l) 0 = (ind, l2) \<and> handleIndentation l2 ind = Inr l'))
       \<or> (ch l \<noteq> 0 \<and> ch l \<noteq> of_char CHR 0x0A \<and> advances (readChar l) l' \<and> plain tok)"
  using assms unfolding scanToken_def Let_def
  apply (simp add: finish_eq newToken_def plain_def LookupIdent_not_special advances_readChar2
              advances_readChar3 r_is_letter
           split: if_splits sum.splits prod.splits)
  apply (auto dest: reader_adv readNumber_adv simp: LookupIdent_not_special r_is_letter plain_def)
  done

section \<open>The indentation protocol and the token stream\<close>

text \<open>The stack left by popping every width on top that exceeds \<open>indent\<close> (the top of the
  stack is the last element of the list).\<close>

definition popWhile :: "nat \<Rightarrow> nat list \<Rightarrow> nat list" where
  "popWhile indent stack = rev (dropWhile (\<lambda>w. indent < w) (rev stack))"

lemma length_popWhile:
  "length (takeWhile (\<lambda>w. indent < w) (rev stack)) = length stack - length (popWhile indent stack)"
proof -
  have "length (takeWhile (\<lambda>w. indent < w) (rev stack)) + length (dropWhile (\<lambda>w. indent < w) (rev stack))
        = length stack"
    by (metis length_append length_rev takeWhile_dropWhile_id)
  then show ?thesis by (simp add: popWhile_def)
qed

lemma handleIndentation_less:
  assumes "indentStack l \<noteq> []" and "indent < last (indentStack l)"
  shows "handleIndentation l indent =
    Inr (l\<lparr>indentStack := popWhile indent (indentStack l),
          tokens := tokens l
            @ replicate (length (indentStack l) - length (popWhile indent (indentStack l)))
                (newToken l DEDENT '''')
            @ (if popWhile indent (indentStack l) = [] \<or> last (popWhile indent (indentStack l)) \<noteq> indent
               then [newToken l ILLEGAL ''invalid indentation''] else [])\<rparr>)"
  using assms
  by (simp add: handleIndentation_def Let_def dedentLoop_eq length_popWhile popWhile_def [symmetric])

lemma handleIndentation_equal:
  assumes "indentStack l \<noteq> []" and "indent = last (indentStack l)"
  shows "handleIndentation l indent = Inr l"
  using assms by (simp add: handleIndentation_def)

lemma same_queue_skip_count:
  assumes "countIndent (readChar (skipWhitespace l)) 0 = (indent, l2)"
  shows "indentStack l2 = indentStack l" "tokens l2 = tokens l"
proof -
  have "advances l (skipWhitespace l)" by simp
  moreover have "advances (skipWhitespace l) (readChar (skipWhitespace l))" by simp
  moreover from assms have "advances (readChar (skipWhitespace l)) l2" by (rule advances_countIndent)
  ultimately have "advances l l2" by (blast intro: advances_trans)
  then show "indentStack l2 = indentStack l" "tokens l2 = tokens l"
    by (simp_all add: advances_def same_queue_def)
qed

lemma NextToken_newline:
  assumes "tokens l = []" and "ch (skipWhitespace l) = of_char CHR 0x0A"
    and "countIndent (readChar (skipWhitespace l)) 0 = (indent, l2)"
  shows "NextToken U l =
    (case handleIndentation l2 indent of
       Inl e \<Rightarrow> Inl e
     | Inr l3 \<Rightarrow> Inr (newToken (skipWhitespace l) NL [CHR 0x0A], l3))"
  using assms by (simp add: NextToken_def scanToken_def Let_def)

text \<open>
  Claim C6: when a newline is followed by an indentation width smaller than the top of the
  indentation stack, \<^verbatim>\<open>NextToken\<close> returns the newline token, pops the stack while its top
  exceeds the width, queues exactly one \<^verbatim>\<open>DEDENT\<close> token per pop and, if the remaining top
  is not the width, one \<^verbatim>\<open>ILLEGAL\<close> token after them; when the width equals the top, it
  queues nothing and leaves the stack as it is.
\<close>

theorem dedent_on_newline:
  assumes "tokens l = []" and "ch (skipWhitespace l) = of_char CHR 0x0A"
    and "countIndent (readChar (skipWhitespace l)) 0 = (indent, l2)"
    and "indentStack l \<noteq> []"
  shows "(indent < last (indentStack l) \<longrightarrow>
           NextToken U l =
             Inr (newToken (skipWhitespace l) NL [CHR 0x0A],
                  l2\<lparr>indentStack := popWhile indent (indentStack l),
                     tokens :=
                       replicate (length (indentStack l) - length (popWhile indent (indentStack l)))
                         (newToken l2 DEDENT '''')
                       @ (if popWhile indent (indentStack l) = []
                             \<or> last (popWhile indent (indentStack l)) \<noteq> indent
                          then [newToken l2 ILLEGAL ''invalid indentation''] else [])\<rparr>))
       \<and> (indent = last (indentStack l) \<longrightarrow>
           NextToken U l = Inr (newToken (skipWhitespace l) NL [CHR 0x0A], l2))"
proof -
  note sq = same_queue_skip_count [OF assms(3)]
  from assms(4) sq have ne: "indentStack l2 \<noteq> []" by simp
  show ?thesis
  proof (intro conjI impI)
    assume "indent < last (indentStack l)"
    with sq have "indent < last (indentStack l2)" by simp
    from handleIndentation_less [OF ne this] sq assms(1) show "NextToken U l =
             Inr (newToken (skipWhitespace l) NL [CHR 0x0A],
                  l2\<lparr>indentStack := popWhile indent (indentStack l),
                     tokens :=
                       replicate (length (indentStack l) - length (popWhile indent (indentStack l)))
                         (newToken l2 DEDENT '''')
                       @ (if popWhile indent (indentStack l) = []
                             \<or> last (popWhile indent (indentStack l)) \<noteq> indent
                          then [newToken l2 ILLEGAL ''invalid indentation''] else [])\<rparr>)"
      by (simp add: NextToken_newline [OF assms(1-3)])
  next
    assume "indent = last (indentStack l)"
    with sq have "indent = last (indentStack l2)" by simp
    from handleIndentation_equal [OF ne this] show
      "NextToken U l = Inr (newToken (skipWhitespace l) NL [CHR 0x0A], l2)"
      by (simp add: NextToken_newline [OF assms(1-3)])
  qed
qed

definition ascii :: unicode where
  "ascii = \<lparr>IsLetter = (\<lambda>_. False), IsDigit = (\<lambda>_. False)\<rparr>"

definition dedent_state :: Lexer where
  "dedent_state = \<lparr>input = [CHR 0x0A, CHR '' '', CHR '' '', CHR '' '', CHR ''x''], position = 0, readPosition = 1,
     ch = 10, line = 1, column = 1, indentStack = [0, 2, 4], indentLevel = 0, tokens = []\<rparr>"

theorem dedent_on_newline_witness:
  "NextToken ascii dedent_state =
    Inr (\<lparr>Type = NL, Literal = [CHR 0x0A], Line = 1, Column = 1, Offset = 0\<rparr>,
         \<lparr>input = [CHR 0x0A, CHR '' '', CHR '' '', CHR '' '', CHR ''x''], position = 4,
            readPosition = 5, ch = 120, line = 1, column = 5, indentStack = [0, 2],
            indentLevel = 0,
            tokens = [\<lparr>Type = DEDENT, Literal = [], Line = 1, Column = 5, Offset = 4\<rparr>,
                      \<lparr>Type = ILLEGAL, Literal = ''invalid indentation'', Line = 1,
                         Column = 5, Offset = 4\<rparr>]\<rparr>)"
proof -
  have h1: "tokens dedent_state = []" by (simp add: dedent_state_def)
  have sk: "skipWhitespace dedent_state = dedent_state" by code_simp
  have h2: "ch (skipWhitespace dedent_state) = of_char CHR 0x0A"
    by (simp add: sk) (simp add: dedent_state_def)
  have h3: "countIndent (readChar (skipWhitespace dedent_state)) 0 =
      (3, \<lparr>input = [CHR 0x0A, CHR '' '', CHR '' '', CHR '' '', CHR ''x''], position = 4,
            readPosition = 5, ch = 120, line = 1, column = 5, indentStack = [0, 2, 4],
            indentLevel = 0, tokens = []\<rparr>)"
    by code_simp
  have h4: "indentStack dedent_state \<noteq> []" by (simp add: dedent_state_def)
  from dedent_on_newline [OF h1 h2 h3 h4, of ascii] show ?thesis
    unfolding sk by (simp add: popWhile_def newToken_def dedent_state_def)
qed

text \<open>\<open>n\<close> calls of \<^verbatim>\<open>NextToken\<close> in a row, as a caller of the lexer makes them: the
  tokens returned, in order, and the lexer state after the last call.\<close>

primrec nextTokens :: "unicode \<Rightarrow> nat \<Rightarrow> Lexer \<Rightarrow> panic + Token list \<times> Lexer" where
  "nextTokens U 0 l = Inr ([], l)"
| "nextTokens U (Suc n) l =
    (case NextToken U l of
       Inl e \<Rightarrow> Inl e
     | Inr (tok, l') \<Rightarrow>
         (case nextTokens U n l' of
            Inl e \<Rightarrow> Inl e
          | Inr (toks, l'') \<Rightarrow> Inr (tok # toks, l'')))"

definition countType :: "TokenType \<Rightarrow> Token list \<Rightarrow> nat" where
  "countType ty toks = length (filter (\<lambda>t. Type t = ty) toks)"

lemma countType_simps [simp]:
  "countType ty [] = 0"
  "countType ty (t # ts) = (if Type t = ty then 1 else 0) + countType ty ts"
  "countType ty (xs @ ys) = countType ty xs + countType ty ys"
  by (simp_all add: countType_def)

lemma countType_replicate [simp]:
  "countType ty (replicate n t) = (if Type t = ty then n else 0)"
  by (induction n) auto












lemma lexer_inv_upd [simp]:
  "lexer_inv (l\<lparr>tokens := t\<rparr>) = lexer_inv l"
  "lexer_inv (l\<lparr>indentStack := s\<rparr>) = lexer_inv l"
  by (simp_all add: lexer_inv_def)

lemma handleIndentation_lexer_inv:
  "handleIndentation l indent = Inr l' \<Longrightarrow> lexer_inv l \<Longrightarrow> lexer_inv l'"
  by (auto simp: handleIndentation_def Let_def dedentLoop_eq split: if_splits)

lemma scanToken_lexer_inv:
  assumes "scanToken U l = Inr (tok, l')" and "lexer_inv l"
  shows "lexer_inv l'"
  using scanToken_cases [OF assms(1)]
proof (elim disjE conjE exE)
  assume "l' = l"
  with assms show ?thesis by simp
next
  fix ind l2
  assume c: "countIndent (readChar l) 0 = (ind, l2)" and h: "handleIndentation l2 ind = Inr l'"
  have "advances l l2" using advances_countIndent [OF c] advances_readChar advances_trans by blast
  with assms(2) have "lexer_inv l2" by (simp add: advances_def)
  with h show ?thesis by (rule handleIndentation_lexer_inv)
next
  assume a: "advances (readChar l) l'"
  have "advances l l'" using a advances_readChar advances_trans by blast
  with assms(2) show ?thesis by (simp add: advances_def)
qed

lemma NextToken_lexer_inv:
  assumes "NextToken U l = Inr (tok, l')" and "lexer_inv l"
  shows "lexer_inv l'"
proof (cases "tokens l")
  case Nil
  with assms(1) have s: "scanToken U (skipWhitespace l) = Inr (tok, l')" by (simp add: NextToken_def)
  from assms(2) advances_skipWhitespace [of l] have "lexer_inv (skipWhitespace l)"
    by (simp add: advances_def)
  with s show ?thesis by (rule scanToken_lexer_inv)
next
  case (Cons t rest)
  with assms show ?thesis by (auto simp: NextToken_def)
qed

lemma nextTokens_lexer_inv:
  "nextTokens U n l = Inr (toks, l') \<Longrightarrow> lexer_inv l \<Longrightarrow> lexer_inv l'"
proof (induction n arbitrary: l toks)
  case 0
  then show ?case by simp
next
  case (Suc n)
  from Suc.prems(1) obtain tok l1 toks' where
    nt: "NextToken U l = Inr (tok, l1)" and r: "nextTokens U n l1 = Inr (toks', l')"
    by (auto split: sum.splits)
  from Suc.IH [OF r NextToken_lexer_inv [OF nt Suc.prems(2)]] show ?case .
qed

lemma NewLexer_lexer_inv: "lexer_inv (NewLexer s)"
proof -
  have "lexer_inv \<lparr>input = s, position = 0, readPosition = 0, ch = 0, line = 1, column = 1,
              indentStack = [0], indentLevel = 0, tokens = []\<rparr>"
    by (simp add: lexer_inv_def)
  then show ?thesis unfolding NewLexer_def by (rule lexer_inv_readChar)
qed

lemma readString_result:
  assumes "lexer_inv l"
  shows "\<exists>l'. readString q l =
            Inr (take (position l' - position l) (drop (position l) (input l)), l')
          \<and> advances (readChar l) l'"
proof -
  from readString_ok [OF assms] obtain s l' where r: "readString q l = Inr (s, l')" by blast
  then have "s = take (position l' - position l) (drop (position l) (input l'))"
    by (auto simp: readString_def Let_def sliceFrom_def substr_def nat_diff_distrib
             split: sum.splits if_splits)
  moreover from r have a: "advances (readChar l) l'" by (rule readString_adv)
  then have "input l' = input l" by (simp add: advances_def same_queue_def)
  ultimately show ?thesis using r a by auto
qed

lemma handleIndentation_input:
  "handleIndentation l indent = Inr l' \<Longrightarrow> input l' = input l"
  by (auto simp: handleIndentation_def Let_def dedentLoop_eq split: if_splits)

lemma advances_input: "advances l l' \<Longrightarrow> input l' = input l"
  by (simp add: advances_def same_queue_def)

lemma NextToken_input:
  assumes "NextToken U l = Inr (tok, l')"
  shows "input l' = input l"
proof (cases "tokens l")
  case Nil
  with assms have s: "scanToken U (skipWhitespace l) = Inr (tok, l')" by (simp add: NextToken_def)
  have i: "input (skipWhitespace l) = input l" by (rule advances_input) simp
  from scanToken_cases [OF s] have "input l' = input (skipWhitespace l)"
  proof (elim disjE conjE exE)
    fix ind l2
    assume c: "countIndent (readChar (skipWhitespace l)) 0 = (ind, l2)"
      and h: "handleIndentation l2 ind = Inr l'"
    from advances_input [OF advances_countIndent [OF c]] handleIndentation_input [OF h]
    show ?thesis by simp
  next
    assume "advances (readChar (skipWhitespace l)) l'"
    from advances_input [OF this] show ?thesis by simp
  qed simp
  with i show ?thesis by simp
next
  case (Cons t rest)
  with assms show ?thesis by (auto simp: NextToken_def)
qed

lemma nextTokens_input:
  "nextTokens U n l = Inr (toks, l') \<Longrightarrow> input l' = input l"
proof (induction n arbitrary: l toks)
  case 0
  then show ?case by simp
next
  case (Suc n)
  from Suc.prems(1) obtain tok l1 toks' where
    nt: "NextToken U l = Inr (tok, l1)" and r: "nextTokens U n l1 = Inr (toks', l')"
    by (auto split: sum.splits)
  from Suc.IH [OF r] NextToken_input [OF nt] show ?case by simp
qed

lemma input_NewLexer [simp]: "input (NewLexer s) = s"
  by (simp add: NewLexer_def)

lemma scanToken_quote:
  assumes "ch l = of_char CHR 0x22 \<or> ch l = of_char CHR 0x27"
  shows "scanToken U l =
    (case readString (ch l) l of
       Inl e \<Rightarrow> Inl e
     | Inr (s, l') \<Rightarrow>
         Inr (\<lparr>Type = STRING, Literal = s, Line = line l, Column = column l,
               Offset = position l\<rparr>, l'))"
  using assms by (elim disjE; simp add: scanToken_def Let_def)

subsection \<open>The indentation protocol at end of input\<close>








subsection \<open>String literals\<close>

definition unterminated_string :: string where
  "unterminated_string = [CHR 0x22, CHR ''a'', CHR ''b'', CHR ''c'']"

lemma run_unterminated_string:
  "nextTokens ascii 2 (NewLexer unterminated_string) =
    Inr ([\<lparr>Type = STRING, Literal = [CHR 0x22, CHR ''a'', CHR ''b'', CHR ''c''], Line = 1,
            Column = 2, Offset = 0\<rparr>,
          \<lparr>Type = EOF, Literal = [], Line = 1, Column = 6, Offset = 4\<rparr>],
         \<lparr>input = unterminated_string, position = 4, readPosition = 4, ch = 0, line = 1,
            column = 6, indentStack = [0], indentLevel = 0, tokens = []\<rparr>)"
  by code_simp

text \<open>
  Claim C4, as stated, fails: on the input \<^verbatim>\<open>"abc\<close>, a string literal that is never closed,
  the token stream is one \<^verbatim>\<open>STRING\<close> token holding the rest of the input and then
  \<^verbatim>\<open>EOF\<close>. No \<^verbatim>\<open>ILLEGAL\<close> token is returned.
\<close>

theorem unterminated_string_is_STRING:
  "nextTokens ascii 2 (NewLexer unterminated_string) =
    Inr ([\<lparr>Type = STRING, Literal = [CHR 0x22, CHR ''a'', CHR ''b'', CHR ''c''], Line = 1,
            Column = 2, Offset = 0\<rparr>,
          \<lparr>Type = EOF, Literal = [], Line = 1, Column = 6, Offset = 4\<rparr>],
         \<lparr>input = unterminated_string, position = 4, readPosition = 4, ch = 0, line = 1,
            column = 6, indentStack = [0], indentLevel = 0, tokens = []\<rparr>)"
  using run_unterminated_string by simp

text \<open>
  Claim C4, amended: for every input, whenever the lexer meets the opening quote of a string
  literal, whether or not a closing quote follows before the end of the input, it does not
  fail hard and returns a token of type \<^verbatim>\<open>STRING\<close> (never \<^verbatim>\<open>ILLEGAL\<close>) whose literal is the
  input from the opening quote up to where the scan stopped; an unterminated string is an
  ordinary \<^verbatim>\<open>STRING\<close> token.
\<close>

theorem string_literal_token:
  assumes "nextTokens U n (NewLexer s) = Inr (toks, l)" and "tokens l = []"
    and "ch (skipWhitespace l) = of_char CHR 0x22 \<or> ch (skipWhitespace l) = of_char CHR 0x27"
  shows "\<exists>tok l'. NextToken U l = Inr (tok, l') \<and> Type tok = STRING
           \<and> Literal tok = take (position l' - position (skipWhitespace l))
                              (drop (position (skipWhitespace l)) s)"
proof -
  let ?l = "skipWhitespace l"
  from nextTokens_lexer_inv [OF assms(1) NewLexer_lexer_inv] have "lexer_inv l" .
  with advances_skipWhitespace [of l] have inv: "lexer_inv ?l" and i: "input ?l = input l"
    by (simp_all add: advances_def same_queue_def)
  from nextTokens_input [OF assms(1)] i have s: "input ?l = s" by simp
  from readString_result [OF inv, of "ch ?l"] obtain l' where
    r: "readString (ch ?l) ?l = Inr (take (position l' - position ?l) (drop (position ?l) (input ?l)), l')"
    by blast
  from assms(2) have "NextToken U l = scanToken U ?l" by (simp add: NextToken_def)
  also from r have "\<dots> = Inr (\<lparr>Type = STRING,
        Literal = take (position l' - position ?l) (drop (position ?l) (input ?l)),
        Line = line ?l, Column = column ?l, Offset = position ?l\<rparr>, l')"
    by (simp add: scanToken_quote [OF assms(3)])
  finally show ?thesis using s by simp
qed


lemma run_nothing: "nextTokens ascii 0 (NewLexer unterminated_string) = Inr ([], NewLexer unterminated_string)"
  by simp

theorem string_literal_token_witness:
  "\<exists>tok l'. NextToken ascii (NewLexer unterminated_string) = Inr (tok, l') \<and> Type tok = STRING
     \<and> Literal tok = take (position l' - 0) (drop 0 unterminated_string)"
proof -
  have q: "tokens (NewLexer unterminated_string) = []" by code_simp
  have sk: "skipWhitespace (NewLexer unterminated_string) = NewLexer unterminated_string"
    by code_simp
  have c: "ch (skipWhitespace (NewLexer unterminated_string)) = of_char CHR 0x22
         \<or> ch (skipWhitespace (NewLexer unterminated_string)) = of_char CHR 0x27"
    unfolding sk by code_simp
  have p: "position (NewLexer unterminated_string) = 0" by code_simp
  from string_literal_token [OF run_nothing q c] show ?thesis
    unfolding sk p by simp
qed

section \<open>The syntax tree (internal/core/ast)\<close>

text \<open>
  Go's nilable values are options: an interface value \<^verbatim>\<open>Expression\<close> or \<^verbatim>\<open>Statement\<close> that is
  \<^verbatim>\<open>nil\<close> is \<open>None\<close>, and so is a nil pointer \<^verbatim>\<open>*Function\<close> or \<^verbatim>\<open>*Class\<close>. A slice is a
  list; the nil slice and the empty slice are both \<open>[]\<close>. Only the node types that
  \<^verbatim>\<open>parser.go\<close> constructs are modelled (it never builds an array, dictionary, index, dot or
  assignment expression, nor an annotation). The field \<^verbatim>\<open>NumberLiteral.Value\<close> is left
  out: the parser never assigns it.
\<close>

record Position =
  PosLine :: nat
  PosColumn :: nat
  PosOffset :: nat

datatype Expression =
    Identifier Position string
  | NumberLiteral Position bool string
  | StringLiteral Position string
  | BooleanLiteral Position bool
  | NullLiteral Position
  | PrefixExpression Position string "Expression option"
  | InfixExpression Position "Expression option" string "Expression option"
  | CallExpression Position "Expression option" "Expression option list"
  | ConditionalExpression Position "Expression option" "Expression option" "Expression option"

text \<open>\<^verbatim>\<open>Position()\<close> of an expression node.\<close>

fun ExprPosition :: "Expression \<Rightarrow> Position" where
  "ExprPosition (Identifier pos _) = pos"
| "ExprPosition (NumberLiteral pos _ _) = pos"
| "ExprPosition (StringLiteral pos _) = pos"
| "ExprPosition (BooleanLiteral pos _) = pos"
| "ExprPosition (NullLiteral pos) = pos"
| "ExprPosition (PrefixExpression pos _ _) = pos"
| "ExprPosition (InfixExpression pos _ _ _) = pos"
| "ExprPosition (CallExpression pos _ _) = pos"
| "ExprPosition (ConditionalExpression pos _ _ _) = pos"

record Annotation =
  AnnPos :: Position
  AnnName :: string
  AnnArgs :: "Expression option list"

record BaseStatement =
  Pos :: Position
  Kind :: string
  Annotations :: "Annotation list"

record VarStatement = BaseStatement +
  Name :: string
  TypeHint :: string
  Value :: "Expression option"
  IsTyped :: bool
  IsConst :: bool
  IsInferred :: bool

record Parameter =
  ParamPos :: Position
  ParamName :: string
  ParamTypeHint :: string
  Default :: "Expression option"

text \<open>The concrete pointer types that \<^verbatim>\<open>parseStatement\<close> converts to the interface
  \<^verbatim>\<open>Statement\<close>. A nil pointer of one of these types, converted to the interface, is an
  interface value that is not \<^verbatim>\<open>nil\<close>: it is the node \<open>NilPointer\<close> below.\<close>

datatype PointerType =
    VarStatementPtr | FunctionPtr | ClassPtr | IfStatementPtr | ForStatementPtr
  | WhileStatementPtr | MatchStatementPtr

datatype Statement =
    PassStatement BaseStatement
  | ReturnStatement BaseStatement "Expression option"
  | BreakStatement BaseStatement
  | ContinueStatement BaseStatement
  | ExpressionStatement BaseStatement "Expression option"
  | VarNode VarStatement
  | FunctionNode Function
  | ClassNode Class
  | IfNode IfStatement
  | ForNode ForStatement
  | WhileNode WhileStatement
  | MatchNode MatchStatement
  | NilPointer PointerType
and Function =
    Function (FuncPos: Position) (FuncName: string) (Parameters: "Parameter list")
      (ReturnType: string) (FuncStatements: "Statement list") (SubStatements: "Statement list")
      (FuncAnnotations: "Annotation list") (IsStatic: bool)
and Class =
    Class (ClassPos: Position) (ClassName: string) (Extends: string)
      (SubClasses: "Class option list") (Functions: "Function option list")
      (ClassStatements: "Statement list") (ClassAnnotations: "Annotation list")
and IfStatement =
    IfStatement (IfBase: BaseStatement) (IfCondition: "Expression option")
      (Consequence: "Statement list") (ElseCondition: "Expression option list")
      (ElseBranches: "Statement list list") (Alternative: "Statement list")
and ForStatement =
    ForStatement (ForBase: BaseStatement) (Iterator: string) (IteratorPos: Position)
      (Collection: "Expression option") (ForBody: "Statement list") (ForTypeHint: string)
      (ForIsTyped: bool)
and WhileStatement =
    WhileStatement (WhileBase: BaseStatement) (WhileCondition: "Expression option")
      (WhileBody: "Statement list")
and MatchStatement =
    MatchStatement (MatchBase: BaseStatement) (MatchValue: "Expression option")
      (Branches: "MatchBranch list")
and MatchBranch =
    MatchBranch (BranchPos: Position) (Pattern: "Expression option") (Guard: "Expression option")
      (BranchBody: "Statement list") (IsGuarded: bool)

record AbstractSyntaxTree =
  TreePos :: Position
  RootClass :: "Class option"
  Classes :: "Class option list"
  TreeFunctions :: "Function option list"

subsection \<open>Node constructors and setters (internal/core/ast)\<close>

definition newBase :: "Position \<Rightarrow> string \<Rightarrow> BaseStatement" where
  "newBase pos kind = \<lparr>Pos = pos, Kind = kind, Annotations = []\<rparr>"

definition NewPassStatement :: "Position \<Rightarrow> Statement" where
  "NewPassStatement pos = PassStatement (newBase pos ''pass_stmt'')"

definition NewReturnStatement :: "Position \<Rightarrow> Expression option \<Rightarrow> Statement" where
  "NewReturnStatement pos v = ReturnStatement (newBase pos ''return_stmt'') v"

definition NewBreakStatement :: "Position \<Rightarrow> Statement" where
  "NewBreakStatement pos = BreakStatement (newBase pos ''break_stmt'')"

definition NewContinueStatement :: "Position \<Rightarrow> Statement" where
  "NewContinueStatement pos = ContinueStatement (newBase pos ''continue_stmt'')"

definition NewExpressionStatement :: "Position \<Rightarrow> Expression option \<Rightarrow> Statement" where
  "NewExpressionStatement pos expr = ExpressionStatement (newBase pos ''expr_stmt'') expr"

definition NewVarStatement :: "Position \<Rightarrow> string \<Rightarrow> bool \<Rightarrow> VarStatement" where
  "NewVarStatement pos name isTyped =
    \<lparr>Pos = pos, Kind = (if isTyped then ''func_var_typed'' else ''func_var_stmt''),
     Annotations = [], Name = name, TypeHint = [], Value = None, IsTyped = isTyped,
     IsConst = False, IsInferred = False\<rparr>"

definition SetValue :: "VarStatement \<Rightarrow> Expression option \<Rightarrow> VarStatement" where
  "SetValue v val =
    v\<lparr>Value := val,
      Kind := (if IsConst v then (if IsTyped v then ''const_typed_assgnd'' else ''const_assigned'')
               else (if IsTyped v then ''func_var_typed_assgnd'' else ''func_var_assigned''))\<rparr>"

definition SetTypeHint :: "VarStatement \<Rightarrow> string \<Rightarrow> VarStatement" where
  "SetTypeHint v typeHint =
    v\<lparr>TypeHint := typeHint, IsTyped := True,
      Kind := (if Value v \<noteq> None
               then (if IsConst v then ''const_typed_assgnd'' else ''func_var_typed_assgnd'')
               else (if IsConst v then ''const_typed'' else ''func_var_typed''))\<rparr>"

definition SetConst :: "VarStatement \<Rightarrow> VarStatement" where
  "SetConst v =
    v\<lparr>IsConst := True,
      Kind := (if IsTyped v
               then (if Value v \<noteq> None then ''const_typed_assgnd'' else ''const_typed'')
               else (if Value v \<noteq> None then ''const_assigned'' else ''const_stmt''))\<rparr>"

definition SetInferred :: "VarStatement \<Rightarrow> VarStatement" where
  "SetInferred v =
    v\<lparr>IsInferred := True, IsTyped := True,
      Kind := (if IsConst v then ''const_typed_assgnd'' else ''func_var_assigned'')\<rparr>"

definition NewFunction :: "string \<Rightarrow> Position \<Rightarrow> Function" where
  "NewFunction name pos = Function pos name [] [] [] [] [] False"

fun AddParameter :: "Function \<Rightarrow> Parameter \<Rightarrow> Function" where
  "AddParameter (Function pos name params rt stmts subs anns st) param =
     Function pos name (params @ [param]) rt stmts subs anns st"

text \<open>\<^verbatim>\<open>Function.AddStatement\<close> appends the statement to \<^verbatim>\<open>Statements\<close> and to
  \<^verbatim>\<open>SubStatements\<close>.\<close>

fun AddStatement :: "Function \<Rightarrow> Statement \<Rightarrow> Function" where
  "AddStatement (Function pos name params rt stmts subs anns st) statement =
     Function pos name params rt (stmts @ [statement]) (subs @ [statement]) anns st"

fun AddSubStatement :: "Function \<Rightarrow> Statement \<Rightarrow> Function" where
  "AddSubStatement (Function pos name params rt stmts subs anns st) statement =
     Function pos name params rt stmts (subs @ [statement]) anns st"

fun setReturnType :: "Function \<Rightarrow> string \<Rightarrow> Function" where
  "setReturnType (Function pos name params rt stmts subs anns st) t =
     Function pos name params t stmts subs anns st"

fun setIsStatic :: "Function \<Rightarrow> bool \<Rightarrow> Function" where
  "setIsStatic (Function pos name params rt stmts subs anns st) b =
     Function pos name params rt stmts subs anns b"

definition NewClass :: "string \<Rightarrow> Position \<Rightarrow> Class" where
  "NewClass name pos = Class pos name [] [] [] [] []"

fun AddSubClass :: "Class \<Rightarrow> Class option \<Rightarrow> Class" where
  "AddSubClass (Class pos name ext subs funs stmts anns) c =
     Class pos name ext (subs @ [c]) funs stmts anns"

fun AddFunction :: "Class \<Rightarrow> Function option \<Rightarrow> Class" where
  "AddFunction (Class pos name ext subs funs stmts anns) f =
     Class pos name ext subs (funs @ [f]) stmts anns"

fun AddClassStatement :: "Class \<Rightarrow> Statement \<Rightarrow> Class" where
  "AddClassStatement (Class pos name ext subs funs stmts anns) statement =
     Class pos name ext subs funs (stmts @ [statement]) anns"

fun setExtends :: "Class \<Rightarrow> string \<Rightarrow> Class" where
  "setExtends (Class pos name ext subs funs stmts anns) e =
     Class pos name e subs funs stmts anns"

fun setClassName :: "Class \<Rightarrow> string \<Rightarrow> Class" where
  "setClassName (Class pos name ext subs funs stmts anns) n =
     Class pos n ext subs funs stmts anns"

definition NewIfStatement :: "Position \<Rightarrow> Expression option \<Rightarrow> IfStatement" where
  "NewIfStatement pos condition = IfStatement (newBase pos ''if_stmt'') condition [] [] [] []"

fun AddConsequenceStatement :: "IfStatement \<Rightarrow> Statement \<Rightarrow> IfStatement" where
  "AddConsequenceStatement (IfStatement b c cons conds brs alt) statement =
     IfStatement b c (cons @ [statement]) conds brs alt"

fun AddElseIfBranch :: "IfStatement \<Rightarrow> Expression option \<Rightarrow> Statement list \<Rightarrow> IfStatement" where
  "AddElseIfBranch (IfStatement b c cons conds brs alt) condition statements =
     IfStatement b c cons (conds @ [condition]) (brs @ [statements]) alt"

fun SetAlternative :: "IfStatement \<Rightarrow> Statement list \<Rightarrow> IfStatement" where
  "SetAlternative (IfStatement b c cons conds brs alt) statements =
     IfStatement b c cons conds brs statements"

definition NewForStatement ::
  "Position \<Rightarrow> string \<Rightarrow> Position \<Rightarrow> Expression option \<Rightarrow> bool \<Rightarrow> ForStatement" where
  "NewForStatement pos iterator iteratorPos collection isTyped =
    ForStatement (newBase pos (if isTyped then ''for_stmt_typed'' else ''for_stmt''))
      iterator iteratorPos collection [] [] isTyped"

fun AddForBodyStatement :: "ForStatement \<Rightarrow> Statement \<Rightarrow> ForStatement" where
  "AddForBodyStatement (ForStatement b it ip coll body th ty) statement =
     ForStatement b it ip coll (body @ [statement]) th ty"

fun SetForTypeHint :: "ForStatement \<Rightarrow> string \<Rightarrow> ForStatement" where
  "SetForTypeHint (ForStatement b it ip coll body th ty) typeHint =
     ForStatement (b\<lparr>Kind := ''for_stmt_typed''\<rparr>) it ip coll body typeHint True"

definition NewWhileStatement :: "Position \<Rightarrow> Expression option \<Rightarrow> WhileStatement" where
  "NewWhileStatement pos condition = WhileStatement (newBase pos ''while_stmt'') condition []"

fun AddWhileBodyStatement :: "WhileStatement \<Rightarrow> Statement \<Rightarrow> WhileStatement" where
  "AddWhileBodyStatement (WhileStatement b c body) statement =
     WhileStatement b c (body @ [statement])"

definition NewMatchStatement :: "Position \<Rightarrow> Expression option \<Rightarrow> MatchStatement" where
  "NewMatchStatement pos v = MatchStatement (newBase pos ''match_stmt'') v []"

fun AddBranch :: "MatchStatement \<Rightarrow> MatchBranch \<Rightarrow> MatchStatement" where
  "AddBranch (MatchStatement b v brs) branch = MatchStatement b v (brs @ [branch])"

definition NewMatchBranch :: "Position \<Rightarrow> Expression option \<Rightarrow> MatchBranch" where
  "NewMatchBranch pos pattern = MatchBranch pos pattern None [] False"

fun SetGuard :: "MatchBranch \<Rightarrow> Expression option \<Rightarrow> MatchBranch" where
  "SetGuard (MatchBranch pos pat g body ig) guard = MatchBranch pos pat guard body True"

fun AddBranchBodyStatement :: "MatchBranch \<Rightarrow> Statement \<Rightarrow> MatchBranch" where
  "AddBranchBodyStatement (MatchBranch pos pat g body ig) statement =
     MatchBranch pos pat g (body @ [statement]) ig"

definition NewAST :: AbstractSyntaxTree where
  "NewAST = \<lparr>TreePos = \<lparr>PosLine = 1, PosColumn = 1, PosOffset = 0\<rparr>, RootClass = None,
             Classes = [], TreeFunctions = []\<rparr>"

subsection \<open>Progress of the token stream\<close>

text \<open>A measure of what the lexer can still return: it falls with every token that is not
  end-of-input and never rises.\<close>

definition lexMeasure :: "Lexer \<Rightarrow> nat" where
  "lexMeasure l = 3 * lrem l + length (tokens l) + length (indentStack l)"

lemma length_popWhile_le: "length (popWhile indent stack) \<le> length stack"
  by (metis popWhile_def length_dropWhile_le length_rev)

lemma lrem_upd [simp]:
  "lrem (l\<lparr>tokens := t\<rparr>) = lrem l"
  "lrem (l\<lparr>indentStack := s\<rparr>) = lrem l"
  by (simp_all add: lrem_def)

lemma handleIndentation_measure:
  assumes "handleIndentation l indent = Inr l'"
  shows "lrem l' = lrem l
    \<and> length (tokens l') + length (indentStack l') \<le> length (tokens l) + length (indentStack l) + 2"
proof -
  from assms have ne: "indentStack l \<noteq> []" by (auto simp: handleIndentation_def split: if_splits)
  consider (gt) "last (indentStack l) < indent" | (lt) "indent < last (indentStack l)"
    | (eq) "indent = last (indentStack l)" by linarith
  then show ?thesis
  proof cases
    case gt
    with assms ne show ?thesis by (auto simp: handleIndentation_def)
  next
    case lt
    from handleIndentation_less [OF ne lt] assms length_popWhile_le [of indent "indentStack l"]
    show ?thesis by auto
  next
    case eq
    from handleIndentation_equal [OF ne eq] assms show ?thesis by simp
  qed
qed

lemma scanToken_measure:
  assumes "scanToken U l = Inr (tok, l')"
  shows "lexMeasure l' \<le> lexMeasure l \<and> (Type tok \<noteq> EOF \<longrightarrow> lexMeasure l' < lexMeasure l)"
  using scanToken_cases [OF assms]
proof (elim disjE conjE exE)
  assume "l' = l" "Type tok = EOF"
  then show ?thesis by simp
next
  fix ind l2
  assume nl: "ch l = of_char CHR 0x0A"
    and c: "countIndent (readChar l) 0 = (ind, l2)" and h: "handleIndentation l2 ind = Inr l'"
  from nl have "ch l \<noteq> 0" by simp
  then have 1: "lrem (readChar l) < lrem l" by (rule lrem_readChar_less)
  from advances_countIndent [OF c] have 2: "lrem l2 \<le> lrem (readChar l)"
    and 3: "tokens l2 = tokens l" "indentStack l2 = indentStack l"
    by (simp_all add: advances_def same_queue_def)
  from handleIndentation_measure [OF h] 1 2 3 show ?thesis
    by (simp add: lexMeasure_def)
next
  assume nz: "ch l \<noteq> 0" and a: "advances (readChar l) l'"
  from nz have "lrem (readChar l) < lrem l" by (rule lrem_readChar_less)
  with a show ?thesis by (simp add: lexMeasure_def advances_def same_queue_def)
qed

lemma NextToken_measure:
  assumes "NextToken U l = Inr (tok, l')"
  shows "lexMeasure l' \<le> lexMeasure l \<and> (Type tok \<noteq> EOF \<longrightarrow> lexMeasure l' < lexMeasure l)"
proof (cases "tokens l")
  case Nil
  with assms have s: "scanToken U (skipWhitespace l) = Inr (tok, l')" by (simp add: NextToken_def)
  have "lexMeasure (skipWhitespace l) \<le> lexMeasure l"
    using advances_skipWhitespace [of l] by (simp add: lexMeasure_def advances_def same_queue_def)
  with scanToken_measure [OF s] show ?thesis by auto
next
  case (Cons t rest)
  with assms show ?thesis by (auto simp: NextToken_def lexMeasure_def)
qed

section \<open>Parser (internal/core/parser/parser.go)\<close>

subsection \<open>The parser state\<close>

record Error =
  ErrLine :: nat
  ErrColumn :: nat
  Message :: string

text \<open>\<^verbatim>\<open>type ErrorMode int\<close> with the constants \<^verbatim>\<open>ErrorModeStrict = iota\<close> (that is 0) and
  \<^verbatim>\<open>ErrorModePanic\<close> (1).\<close>

type_synonym ErrorMode = int

definition ErrorModeStrict :: ErrorMode where
  "ErrorModeStrict = 0"

definition ErrorModePanic :: ErrorMode where
  "ErrorModePanic = 1"

record Parser =
  lexer :: Lexer
  currentToken :: Token
  peekToken :: Token
  errors :: "Error list"
  errorMode :: ErrorMode

text \<open>
  A method of the parser either panics or returns a value and the parser state it leaves.
  The recursive-descent methods carry a fuel argument; such a method that runs out of fuel
  has no outcome (\<open>None\<close>).
\<close>

datatype 'a outcome = Panicked panic | Returned 'a Parser

type_synonym 'a action = "Parser \<Rightarrow> 'a outcome option"

definition return :: "'a \<Rightarrow> 'a action" where
  "return a p = Some (Returned a p)"

definition bind :: "'a action \<Rightarrow> ('a \<Rightarrow> 'b action) \<Rightarrow> 'b action" where
  "bind m f p =
    (case m p of
       None \<Rightarrow> None
     | Some (Panicked e) \<Rightarrow> Some (Panicked e)
     | Some (Returned a p') \<Rightarrow> f a p')"

text \<open>A method without fuel, run as a step of one with fuel.\<close>

definition lift :: "(Parser \<Rightarrow> 'a outcome) \<Rightarrow> 'a action" where
  "lift m p = Some (m p)"

definition panicWith :: "panic \<Rightarrow> 'a action" where
  "panicWith e p = Some (Panicked e)"

definition addError :: "Error \<Rightarrow> unit action" where
  "addError e p = Some (Returned () (p\<lparr>errors := errors p @ [e]\<rparr>))"

text \<open>The position of a token, as every node constructor reads it off
  \<^verbatim>\<open>p.currentToken\<close>.\<close>

definition tokenPos :: "Token \<Rightarrow> Position" where
  "tokenPos t = \<lparr>PosLine = Line t, PosColumn = Column t, PosOffset = Offset t\<rparr>"

text \<open>An \<^verbatim>\<open>Error\<close> at a token.\<close>

definition errorAt :: "Token \<Rightarrow> string \<Rightarrow> Error" where
  "errorAt t msg = \<lparr>ErrLine = Line t, ErrColumn = Column t, Message = msg\<rparr>"

subsection \<open>Token handling\<close>

definition nextToken :: "unicode \<Rightarrow> Parser \<Rightarrow> unit outcome" where
  "nextToken U p =
    (case NextToken U (lexer p) of
       Inl e \<Rightarrow> Panicked e
     | Inr (tok, l') \<Rightarrow> Returned () (p\<lparr>currentToken := peekToken p, peekToken := tok, lexer := l'\<rparr>))"

text \<open>The zero value of \<^verbatim>\<open>Token\<close>.\<close>

definition zeroToken :: Token where
  "zeroToken = \<lparr>Type = [], Literal = [], Line = 0, Column = 0, Offset = 0\<rparr>"

text \<open>\<^verbatim>\<open>NewParser\<close> fills \<^verbatim>\<open>lexer\<close> and \<^verbatim>\<open>errors\<close> only; \<^verbatim>\<open>errorMode\<close> keeps the zero value
  of its type. It then reads two tokens.\<close>

definition NewParser :: "unicode \<Rightarrow> string \<Rightarrow> panic + Parser" where
  "NewParser U inp =
    (let p = \<lparr>lexer = NewLexer inp, currentToken = zeroToken, peekToken = zeroToken,
              errors = [], errorMode = 0\<rparr>
     in case nextToken U p of
          Panicked e \<Rightarrow> Inl e
        | Returned _ p1 \<Rightarrow>
            (case nextToken U p1 of
               Panicked e \<Rightarrow> Inl e
             | Returned _ p2 \<Rightarrow> Inr p2))"

definition NewParserWithOptions :: "unicode \<Rightarrow> string \<Rightarrow> ErrorMode \<Rightarrow> panic + Parser" where
  "NewParserWithOptions U inp mode =
    (case NewParser U inp of
       Inl e \<Rightarrow> Inl e
     | Inr parser \<Rightarrow> Inr (parser\<lparr>errorMode := mode\<rparr>))"

definition peekError :: "TokenType \<Rightarrow> unit action" where
  "peekError t p =
    addError (errorAt (peekToken p)
      (''expected next token to be '' @ t @ '', got '' @ Type (peekToken p) @ '' instead'')) p"

text \<open>The termination measure of the loops that only pull tokens.\<close>

definition eofWeight :: "Token \<Rightarrow> nat" where
  "eofWeight t = (if Type t = EOF then 0 else 1)"

definition pmeasure :: "Parser \<Rightarrow> nat" where
  "pmeasure p = 4 * lexMeasure (lexer p) + 2 * eofWeight (peekToken p) + eofWeight (currentToken p)"

lemma nextToken_pmeasure:
  assumes "nextToken U p = Returned u p'"
    and "Type (currentToken p) \<noteq> EOF \<or> Type (peekToken p) \<noteq> EOF"
  shows "pmeasure p' < pmeasure p"
proof -
  from assms(1) obtain tok l' where n: "NextToken U (lexer p) = Inr (tok, l')"
    and p': "p' = p\<lparr>currentToken := peekToken p, peekToken := tok, lexer := l'\<rparr>"
    by (auto simp: nextToken_def split: sum.splits)
  from NextToken_measure [OF n] assms(2) show ?thesis
    by (auto simp: p' pmeasure_def eofWeight_def)
qed

definition isSyncKeyword :: "TokenType \<Rightarrow> bool" where
  "isSyncKeyword t \<longleftrightarrow>
     t = CLASS \<or> t = FUNC \<or> t = VAR \<or> t = CONST' \<or> t = IF \<or> t = FOR \<or> t = WHILE
       \<or> t = MATCH \<or> t = RETURN"

text \<open>The loop of \<^verbatim>\<open>synchronize\<close>.\<close>

function synchronizeLoop :: "unicode \<Rightarrow> Parser \<Rightarrow> unit outcome" where
  "synchronizeLoop U p =
    (if Type (currentToken p) \<noteq> EOF then
       (if Type (currentToken p) = SEMICOLON \<or> Type (currentToken p) = NL then Returned () p
        else if isSyncKeyword (Type (currentToken p)) then Returned () p
        else (case nextToken U p of
                Panicked e \<Rightarrow> Panicked e
              | Returned _ p' \<Rightarrow> synchronizeLoop U p'))
     else Returned () p)"
  by pat_completeness auto
termination
  by (relation "measure (\<lambda>(U, p). pmeasure p)") (auto intro: nextToken_pmeasure)

declare synchronizeLoop.simps [simp del]

definition synchronize :: "unicode \<Rightarrow> Parser \<Rightarrow> unit outcome" where
  "synchronize U p =
    (case nextToken U p of
       Panicked e \<Rightarrow> Panicked e
     | Returned _ p' \<Rightarrow> synchronizeLoop U p')"

text \<open>\<^verbatim>\<open>if p.errorMode == ErrorModePanic { p.synchronize() }\<close>\<close>

definition recover :: "unicode \<Rightarrow> unit action" where
  "recover U p = (if errorMode p = ErrorModePanic then lift (synchronize U) p else return () p)"

definition expectPeek :: "unicode \<Rightarrow> TokenType \<Rightarrow> bool action" where
  "expectPeek U t p =
    (if Type (peekToken p) = t then bind (lift (nextToken U)) (\<lambda>_. return True) p
     else bind (peekError t) (\<lambda>_. bind (recover U) (\<lambda>_. return False)) p)"

function skipNewlines :: "unicode \<Rightarrow> Parser \<Rightarrow> unit outcome" where
  "skipNewlines U p =
    (if Type (currentToken p) = NL \<or> Type (currentToken p) = INDENT then
       (case nextToken U p of
          Panicked e \<Rightarrow> Panicked e
        | Returned _ p' \<Rightarrow> skipNewlines U p')
     else Returned () p)"
  by pat_completeness auto
termination
  by (relation "measure (\<lambda>(U, p). pmeasure p)") (auto intro: nextToken_pmeasure)

declare skipNewlines.simps [simp del]

subsection \<open>Expressions\<close>

definition PREC_LOWEST :: nat where "PREC_LOWEST = 0"
definition PREC_ASSIGN :: nat where "PREC_ASSIGN = 1"
definition PREC_LOGICAL :: nat where "PREC_LOGICAL = 2"
definition PREC_COMPARISON :: nat where "PREC_COMPARISON = 3"
definition PREC_BITWISE :: nat where "PREC_BITWISE = 4"
definition PREC_SUM :: nat where "PREC_SUM = 5"
definition PREC_PRODUCT :: nat where "PREC_PRODUCT = 6"
definition PREC_PREFIX :: nat where "PREC_PREFIX = 7"
definition PREC_CALL :: nat where "PREC_CALL = 8"
definition PREC_INDEX :: nat where "PREC_INDEX = 9"
definition PREC_DOT :: nat where "PREC_DOT = 10"

definition precedences :: "(TokenType \<times> nat) list" where
  "precedences =
    [(ASSIGN, PREC_ASSIGN), (PLUSEQ, PREC_ASSIGN), (MINUSEQ, PREC_ASSIGN),
     (ASTERISKEQ, PREC_ASSIGN), (SLASHEQ, PREC_ASSIGN), (PERCENTEQ, PREC_ASSIGN),
     (AMPEQ, PREC_ASSIGN), (PIPEEQ, PREC_ASSIGN), (CARETEQ, PREC_ASSIGN),
     (LTLTEQ, PREC_ASSIGN), (GTGTEQ, PREC_ASSIGN), (POWEREQ, PREC_ASSIGN),
     (OR, PREC_LOGICAL), (AND, PREC_LOGICAL), (PIPEPIPE, PREC_LOGICAL), (AMPAMP, PREC_LOGICAL),
     (EQ, PREC_COMPARISON), (NOT_EQ, PREC_COMPARISON), (LT, PREC_COMPARISON),
     (GT, PREC_COMPARISON), (LTE, PREC_COMPARISON), (GTE, PREC_COMPARISON),
     (BITAND, PREC_BITWISE), (BITOR, PREC_BITWISE), (BITXOR, PREC_BITWISE),
     (LTLT, PREC_BITWISE), (GTGT, PREC_BITWISE),
     (PLUS, PREC_SUM), (MINUS, PREC_SUM),
     (ASTERISK, PREC_PRODUCT), (SLASH, PREC_PRODUCT), (PERCENT, PREC_PRODUCT),
     (POWER, PREC_PRODUCT),
     (LPAREN, PREC_CALL), (LBRACKET, PREC_INDEX), (DOT, PREC_DOT)]"

definition peekPrecedence :: "Parser \<Rightarrow> nat" where
  "peekPrecedence p =
    (case map_of precedences (Type (peekToken p)) of Some prec \<Rightarrow> prec | None \<Rightarrow> PREC_LOWEST)"

definition curPrecedence :: "Parser \<Rightarrow> nat" where
  "curPrecedence p =
    (case map_of precedences (Type (currentToken p)) of Some prec \<Rightarrow> prec | None \<Rightarrow> PREC_LOWEST)"

definition parseIdentifier :: "Expression option action" where
  "parseIdentifier p =
    return (Some (Identifier (tokenPos (currentToken p)) (Literal (currentToken p)))) p"

definition parseIntegerLiteral :: "Expression option action" where
  "parseIntegerLiteral p =
    return (Some (NumberLiteral (tokenPos (currentToken p)) True (Literal (currentToken p)))) p"

definition parseFloatLiteral :: "Expression option action" where
  "parseFloatLiteral p =
    return (Some (NumberLiteral (tokenPos (currentToken p)) False (Literal (currentToken p)))) p"

definition parseStringLiteral :: "Expression option action" where
  "parseStringLiteral p =
    return (Some (StringLiteral (tokenPos (currentToken p)) (Literal (currentToken p)))) p"

definition parseBooleanLiteral :: "Expression option action" where
  "parseBooleanLiteral p =
    return (Some (BooleanLiteral (tokenPos (currentToken p)) (Type (currentToken p) = TRUE))) p"

definition parseNullLiteral :: "Expression option action" where
  "parseNullLiteral p = return (Some (NullLiteral (tokenPos (currentToken p)))) p"

text \<open>
  The expression methods call \<^verbatim>\<open>parseExpression\<close> and each other. Below, every method takes
  the recursive \<^verbatim>\<open>parseExpression\<close> as its argument \<open>pe\<close>, and the loops take the fuel \<open>k\<close>;
  \<open>parseExpression\<close> itself closes the recursion on the fuel.
\<close>

definition parseGroupedExpression ::
  "unicode \<Rightarrow> (nat \<Rightarrow> Expression option action) \<Rightarrow> Expression option action" where
  "parseGroupedExpression U pe =
    bind (lift (nextToken U)) (\<lambda>_.
    bind (pe PREC_LOWEST) (\<lambda>exp.
      if exp = None then return None
      else bind (expectPeek U RPAREN) (\<lambda>ok.
        if \<not> ok then return None else return exp)))"

definition parsePrefixExpression ::
  "unicode \<Rightarrow> (nat \<Rightarrow> Expression option action) \<Rightarrow> Expression option action" where
  "parsePrefixExpression U pe p =
    (let pos = tokenPos (currentToken p); operator = Literal (currentToken p) in
     bind (lift (nextToken U)) (\<lambda>_.
     bind (pe PREC_PREFIX) (\<lambda>right.
       return (Some (PrefixExpression pos operator right)))) p)"

text \<open>The loop \<^verbatim>\<open>for p.peekToken.Type == COMMA\<close> of \<^verbatim>\<open>parseCallArguments\<close>.\<close>

primrec callArgumentsLoop ::
  "unicode \<Rightarrow> (nat \<Rightarrow> Expression option action) \<Rightarrow> nat \<Rightarrow> Expression option list
     \<Rightarrow> Expression option list action" where
  "callArgumentsLoop U pe 0 args = (\<lambda>p. None)"
| "callArgumentsLoop U pe (Suc k) args = (\<lambda>p.
    if Type (peekToken p) = COMMA then
      bind (lift (nextToken U)) (\<lambda>_.
      bind (lift (nextToken U)) (\<lambda>_.
      bind (pe PREC_LOWEST) (\<lambda>arg.
        callArgumentsLoop U pe k (args @ [arg])))) p
    else return args p)"

definition parseCallArguments ::
  "unicode \<Rightarrow> (nat \<Rightarrow> Expression option action) \<Rightarrow> nat \<Rightarrow> Expression option list action" where
  "parseCallArguments U pe k p =
    (if Type (peekToken p) = RPAREN then
       bind (lift (nextToken U)) (\<lambda>_. return []) p
     else
       bind (lift (nextToken U)) (\<lambda>_.
       bind (pe PREC_LOWEST) (\<lambda>arg.
       bind (callArgumentsLoop U pe k [arg]) (\<lambda>args.
       bind (expectPeek U RPAREN) (\<lambda>ok.
         if \<not> ok then return [] else return args)))) p)"

definition parseCallExpression ::
  "unicode \<Rightarrow> (nat \<Rightarrow> Expression option action) \<Rightarrow> nat \<Rightarrow> Expression option
     \<Rightarrow> Expression option action" where
  "parseCallExpression U pe k fn p =
    (let pos = tokenPos (currentToken p) in
     bind (parseCallArguments U pe k) (\<lambda>args.
       return (Some (CallExpression pos fn args))) p)"

definition parseInfixExpression ::
  "unicode \<Rightarrow> (nat \<Rightarrow> Expression option action) \<Rightarrow> nat \<Rightarrow> Expression option
     \<Rightarrow> Expression option action" where
  "parseInfixExpression U pe k left p =
    (if Type (currentToken p) = LPAREN then parseCallExpression U pe k left p
     else
       (let pos = tokenPos (currentToken p); operator = Literal (currentToken p);
            precedence = curPrecedence p in
        bind (lift (nextToken U)) (\<lambda>_.
        bind (pe precedence) (\<lambda>right.
          return (Some (InfixExpression pos left operator right)))) p))"

text \<open>\<^verbatim>\<open>parseConditionalExpression\<close> is entered with \<^verbatim>\<open>if\<close> as the peek token. Its first
  \<^verbatim>\<open>nextToken\<close> makes \<^verbatim>\<open>if\<close> the current token, and the condition is parsed from there.
  The node's position is \<^verbatim>\<open>valueIfTrue.Position()\<close>, a method call on an interface value
  that panics when the value is nil.\<close>

definition parseConditionalExpression ::
  "unicode \<Rightarrow> (nat \<Rightarrow> Expression option action) \<Rightarrow> Expression option
     \<Rightarrow> Expression option action" where
  "parseConditionalExpression U pe valueIfTrue =
    bind (lift (nextToken U)) (\<lambda>_.
    bind (pe PREC_LOWEST) (\<lambda>condition p.
      if condition = None then
        bind (addError (errorAt (currentToken p)
                ''expected condition expression in conditional expression''))
          (\<lambda>_. return None) p
      else
        bind (expectPeek U ELSE) (\<lambda>ok.
          if \<not> ok then return None
          else
            bind (lift (nextToken U)) (\<lambda>_.
            bind (pe PREC_LOWEST) (\<lambda>valueIfFalse p.
              if valueIfFalse = None then
                bind (addError (errorAt (currentToken p)
                        ''expected expression after 'else' in conditional expression''))
                  (\<lambda>_. return None) p
              else
                (case valueIfTrue of
                   None \<Rightarrow> panicWith NilPointerDereference p
                 | Some v \<Rightarrow>
                     return (Some (ConditionalExpression (ExprPosition v) condition
                                     valueIfTrue valueIfFalse)) p)))) p))"

text \<open>The tokens that end the infix loop of \<^verbatim>\<open>parseExpression\<close>, and the tokens it accepts
  as infix operators.\<close>

definition endsExpression :: "TokenType \<Rightarrow> bool" where
  "endsExpression t \<longleftrightarrow>
     t = SEMICOLON \<or> t = NL \<or> t = EOF \<or> t = COLON \<or> t = RPAREN \<or> t = COMMA
       \<or> t = RBRACE \<or> t = RBRACKET"

definition isInfixOp :: "TokenType \<Rightarrow> bool" where
  "isInfixOp t \<longleftrightarrow>
     t = PLUS \<or> t = MINUS \<or> t = ASTERISK \<or> t = SLASH \<or> t = PERCENT \<or> t = POWER
       \<or> t = EQ \<or> t = NOT_EQ \<or> t = LT \<or> t = GT \<or> t = LTE \<or> t = GTE
       \<or> t = AND \<or> t = OR
       \<or> t = ASSIGN \<or> t = PLUSEQ \<or> t = MINUSEQ \<or> t = ASTERISKEQ \<or> t = SLASHEQ
       \<or> t = LPAREN \<or> t = LBRACKET \<or> t = DOT"

text \<open>The infix loop of \<^verbatim>\<open>parseExpression\<close>. The test for a trailing \<^verbatim>\<open>if\<close> comes before
  the precedence test.\<close>

primrec infixLoop ::
  "unicode \<Rightarrow> (nat \<Rightarrow> Expression option action) \<Rightarrow> nat \<Rightarrow> nat \<Rightarrow> nat \<Rightarrow> Expression option
     \<Rightarrow> Expression option action" where
  "infixLoop U pe n 0 precedence leftExp = (\<lambda>p. None)"
| "infixLoop U pe n (Suc k) precedence leftExp = (\<lambda>p.
    if \<not> endsExpression (Type (peekToken p)) then
      (if Type (peekToken p) = IF then
         bind (parseConditionalExpression U pe leftExp) (\<lambda>e.
           infixLoop U pe n k precedence e) p
       else if peekPrecedence p \<le> precedence then return leftExp p
       else if \<not> isInfixOp (Type (peekToken p)) then return leftExp p
       else
         bind (lift (nextToken U)) (\<lambda>_.
         bind (parseInfixExpression U pe n leftExp) (\<lambda>e.
           infixLoop U pe n k precedence e)) p)
    else return leftExp p)"

definition parseExpressionBody ::
  "unicode \<Rightarrow> (nat \<Rightarrow> Expression option action) \<Rightarrow> nat \<Rightarrow> nat \<Rightarrow> Expression option action" where
  "parseExpressionBody U pe n precedence p =
    bind
      (let t = Type (currentToken p) in
       if t = IDENT then parseIdentifier
       else if t = INT' then parseIntegerLiteral
       else if t = FLOAT then parseFloatLiteral
       else if t = STRING then parseStringLiteral
       else if t = TRUE \<or> t = FALSE then parseBooleanLiteral
       else if t = NULL then parseNullLiteral
       else if t = LPAREN then parseGroupedExpression U pe
       else if t = MINUS \<or> t = BANG then parsePrefixExpression U pe
       else return None)
      (\<lambda>leftExp.
         if leftExp = None then return None
         else infixLoop U pe n n precedence leftExp) p"

primrec parseExpression :: "unicode \<Rightarrow> nat \<Rightarrow> nat \<Rightarrow> Expression option action" where
  "parseExpression U 0 = (\<lambda>precedence p. None)"
| "parseExpression U (Suc n) = parseExpressionBody U (parseExpression U n) n"

subsection \<open>Statements\<close>

abbreviation (input) cur :: "Parser \<Rightarrow> TokenType" where
  "cur p \<equiv> Type (currentToken p)"

abbreviation (input) peek :: "Parser \<Rightarrow> TokenType" where
  "peek p \<equiv> Type (peekToken p)"

text \<open>Appending an \<^verbatim>\<open>Error\<close> at the current token, and at the peek token.\<close>

definition errorHere :: "string \<Rightarrow> unit action" where
  "errorHere msg p = addError (errorAt (currentToken p) msg) p"

definition errorAtPeek :: "string \<Rightarrow> unit action" where
  "errorAtPeek msg p = addError (errorAt (peekToken p) msg) p"

text \<open>The loops \<^verbatim>\<open>for p.peekToken.Type == NL { p.nextToken() }\<close> in front of a block; the
  one of \<^verbatim>\<open>parseFunctionDefinition\<close> also passes \<^verbatim>\<open>INDENT\<close>.\<close>

function skipPeekNewlines :: "unicode \<Rightarrow> bool \<Rightarrow> Parser \<Rightarrow> unit outcome" where
  "skipPeekNewlines U indentToo p =
    (if peek p = NL \<or> (indentToo \<and> peek p = INDENT) then
       (case nextToken U p of
          Panicked e \<Rightarrow> Panicked e
        | Returned _ p' \<Rightarrow> skipPeekNewlines U indentToo p')
     else Returned () p)"
  by pat_completeness auto
termination
  by (relation "measure (\<lambda>(U, b, p). pmeasure p)") (auto intro: nextToken_pmeasure)

declare skipPeekNewlines.simps [simp del]

text \<open>The loop \<^verbatim>\<open>for p.currentToken.Type != NL && p.currentToken.Type != EOF\<close> after a
  single-line match branch.\<close>

function skipToNextLine :: "unicode \<Rightarrow> Parser \<Rightarrow> unit outcome" where
  "skipToNextLine U p =
    (if cur p \<noteq> NL \<and> cur p \<noteq> EOF then
       (case nextToken U p of
          Panicked e \<Rightarrow> Panicked e
        | Returned _ p' \<Rightarrow> skipToNextLine U p')
     else Returned () p)"
  by pat_completeness auto
termination
  by (relation "measure (\<lambda>(U, p). pmeasure p)") (auto intro: nextToken_pmeasure)

declare skipToNextLine.simps [simp del]

definition parsePassStatement :: "Statement action" where
  "parsePassStatement p = return (NewPassStatement (tokenPos (currentToken p))) p"

definition parseBreakStatement :: "Statement action" where
  "parseBreakStatement p = return (NewBreakStatement (tokenPos (currentToken p))) p"

definition parseContinueStatement :: "Statement action" where
  "parseContinueStatement p = return (NewContinueStatement (tokenPos (currentToken p))) p"

definition parseReturnStatement ::
  "unicode \<Rightarrow> (nat \<Rightarrow> Expression option action) \<Rightarrow> Statement action" where
  "parseReturnStatement U pe p =
    (let pos = tokenPos (currentToken p) in
     bind (lift (nextToken U)) (\<lambda>_ p.
       if cur p \<noteq> SEMICOLON \<and> cur p \<noteq> NL
       then bind (pe PREC_LOWEST) (\<lambda>v. return (NewReturnStatement pos v)) p
       else return (NewReturnStatement pos None) p) p)"

definition parseExpressionStatement ::
  "unicode \<Rightarrow> (nat \<Rightarrow> Expression option action) \<Rightarrow> Statement action" where
  "parseExpressionStatement U pe p =
    (let pos = tokenPos (currentToken p) in
     bind (pe PREC_LOWEST) (\<lambda>e p.
       if peek p = SEMICOLON
       then bind (lift (nextToken U)) (\<lambda>_. return (NewExpressionStatement pos e)) p
       else return (NewExpressionStatement pos e) p) p)"

definition parseVarStatement ::
  "unicode \<Rightarrow> (nat \<Rightarrow> Expression option action) \<Rightarrow> VarStatement option action" where
  "parseVarStatement U pe p =
    (let pos = tokenPos (currentToken p);
         assignment = (\<lambda>stmt p.
           if cur p = ASSIGN then
             bind (lift (nextToken U)) (\<lambda>_.
             bind (pe PREC_LOWEST) (\<lambda>v.
             bind (lift (nextToken U)) (\<lambda>_.
               return (Some (SetValue stmt v))))) p
           else return (Some stmt) p)
     in
     bind (lift (nextToken U)) (\<lambda>_.
     bind (lift (skipNewlines U)) (\<lambda>_ p.
       if cur p \<noteq> IDENT then
         bind (errorHere (''expected identifier, got '' @ cur p)) (\<lambda>_.
         bind (recover U) (\<lambda>_. return None)) p
       else
         (let stmt = NewVarStatement pos (Literal (currentToken p)) False in
          bind (lift (nextToken U)) (\<lambda>_ p.
            if cur p = COLON then
              bind (lift (nextToken U)) (\<lambda>_ p.
                if cur p \<noteq> IDENT then
                  bind (errorHere (''expected type identifier, got '' @ cur p)) (\<lambda>_.
                  bind (recover U) (\<lambda>_. return None)) p
                else
                  (let stmt = SetTypeHint stmt (Literal (currentToken p)) in
                   bind (lift (nextToken U)) (\<lambda>_. assignment stmt) p)) p
            else if cur p = COLONASSIGN then
              (let stmt = SetInferred stmt in
               bind (lift (nextToken U)) (\<lambda>_.
               bind (pe PREC_LOWEST) (\<lambda>v. return (Some (SetValue stmt v)))) p)
            else assignment stmt p) p))) p)"

definition parseConstStatement ::
  "unicode \<Rightarrow> (nat \<Rightarrow> Expression option action) \<Rightarrow> VarStatement option action" where
  "parseConstStatement U pe p =
    (let pos = tokenPos (currentToken p);
         assignment = (\<lambda>stmt p.
           if cur p \<noteq> ASSIGN then
             bind (errorHere ''constants must be assigned a value'') (\<lambda>_.
             bind (recover U) (\<lambda>_. return None)) p
           else
             bind (lift (nextToken U)) (\<lambda>_.
             bind (pe PREC_LOWEST) (\<lambda>v.
             bind (lift (nextToken U)) (\<lambda>_.
               return (Some (SetValue stmt v))))) p)
     in
     bind (lift (nextToken U)) (\<lambda>_.
     bind (lift (skipNewlines U)) (\<lambda>_ p.
       if cur p \<noteq> IDENT then
         bind (errorHere (''expected identifier, got '' @ cur p)) (\<lambda>_.
         bind (recover U) (\<lambda>_. return None)) p
       else
         (let stmt = SetConst (NewVarStatement pos (Literal (currentToken p)) False) in
          bind (lift (nextToken U)) (\<lambda>_ p.
            if cur p = COLON then
              bind (lift (nextToken U)) (\<lambda>_ p.
                if cur p \<noteq> IDENT then
                  bind (errorHere (''expected type identifier, got '' @ cur p)) (\<lambda>_.
                  bind (recover U) (\<lambda>_. return None)) p
                else
                  (let stmt = SetTypeHint stmt (Literal (currentToken p)) in
                   bind (lift (nextToken U)) (\<lambda>_. assignment stmt) p)) p
            else assignment stmt p) p))) p)"

text \<open>
  The statement loop of a block: \<^verbatim>\<open>for p.currentToken.Type != DEDENT &&
  p.currentToken.Type != EOF\<close>, which skips the tokens \<open>skip\<close> accepts, parses a statement
  with \<open>ps\<close> (the recursive \<^verbatim>\<open>parseStatement\<close>), adds it to the node under construction
  with \<open>add\<close> unless it is nil, and moves to the next token. The blocks of the source differ
  in the tokens skipped and in the method that adds the statement.
\<close>

primrec statementLoop ::
  "unicode \<Rightarrow> Statement option action \<Rightarrow> (TokenType \<Rightarrow> bool) \<Rightarrow> ('a \<Rightarrow> Statement \<Rightarrow> 'a)
     \<Rightarrow> nat \<Rightarrow> 'a \<Rightarrow> 'a action" where
  "statementLoop U ps skip add 0 node = (\<lambda>p. None)"
| "statementLoop U ps skip add (Suc k) node = (\<lambda>p.
    if cur p \<noteq> DEDENT \<and> cur p \<noteq> EOF then
      (if skip (cur p) then
         bind (lift (nextToken U)) (\<lambda>_. statementLoop U ps skip add k node) p
       else
         bind ps (\<lambda>stmt.
         bind (lift (nextToken U)) (\<lambda>_.
           statementLoop U ps skip add k
             (case stmt of None \<Rightarrow> node | Some s \<Rightarrow> add node s))) p)
    else return node p)"

definition isNL :: "TokenType \<Rightarrow> bool" where
  "isNL t \<longleftrightarrow> t = NL"

definition isNLorINDENT :: "TokenType \<Rightarrow> bool" where
  "isNLorINDENT t \<longleftrightarrow> t = NL \<or> t = INDENT"

definition parseParameter ::
  "unicode \<Rightarrow> (nat \<Rightarrow> Expression option action) \<Rightarrow> Parameter option action" where
  "parseParameter U pe p =
    (if cur p \<noteq> IDENT then
       bind (errorHere (''expected parameter name, got '' @ cur p)) (\<lambda>_. return None) p
     else
       (let param = \<lparr>ParamPos = tokenPos (currentToken p), ParamName = Literal (currentToken p),
                     ParamTypeHint = [], Default = None\<rparr>;
            defaultValue = (\<lambda>param p.
              if cur p = ASSIGN then
                bind (lift (nextToken U)) (\<lambda>_.
                bind (pe PREC_LOWEST) (\<lambda>d.
                  if d = None then
                    bind (errorHere ''invalid default value expression'') (\<lambda>_. return None)
                  else
                    bind (lift (nextToken U)) (\<lambda>_. return (Some (param\<lparr>Default := d\<rparr>))))) p
              else return (Some param) p)
        in
        bind (lift (nextToken U)) (\<lambda>_ p.
          if cur p = COLON then
            bind (lift (nextToken U)) (\<lambda>_ p.
              if cur p \<noteq> IDENT then
                bind (errorHere (''expected type name after ':', got '' @ cur p))
                  (\<lambda>_. return None) p
              else
                (let param = param\<lparr>ParamTypeHint := Literal (currentToken p)\<rparr> in
                 bind (lift (nextToken U)) (\<lambda>_. defaultValue param) p)) p
          else defaultValue param p) p))"

text \<open>The loop \<^verbatim>\<open>for p.currentToken.Type == COMMA\<close> of \<^verbatim>\<open>parseParameterList\<close>. The flag
  returned is \<open>False\<close> when the loop left the whole method by \<^verbatim>\<open>return\<close>.\<close>

primrec parameterLoop ::
  "unicode \<Rightarrow> (nat \<Rightarrow> Expression option action) \<Rightarrow> nat \<Rightarrow> Function
     \<Rightarrow> (Function \<times> bool) action" where
  "parameterLoop U pe 0 function = (\<lambda>p. None)"
| "parameterLoop U pe (Suc k) function = (\<lambda>p.
    if cur p = COMMA then
      bind (lift (nextToken U)) (\<lambda>_ p.
        if cur p = RPAREN then return (function, True) p
        else
          bind (parseParameter U pe) (\<lambda>param.
            case param of
              None \<Rightarrow> return (function, False)
            | Some param \<Rightarrow> parameterLoop U pe k (AddParameter function param)) p) p
    else return (function, True) p)"

definition parseParameterList ::
  "unicode \<Rightarrow> (nat \<Rightarrow> Expression option action) \<Rightarrow> nat \<Rightarrow> Function \<Rightarrow> Function action" where
  "parseParameterList U pe k function =
    bind (lift (nextToken U)) (\<lambda>_ p.
      if cur p = RPAREN then bind (lift (nextToken U)) (\<lambda>_. return function) p
      else
        bind (parseParameter U pe) (\<lambda>param.
          case param of
            None \<Rightarrow> return function
          | Some param \<Rightarrow>
              bind (parameterLoop U pe k (AddParameter function param)) (\<lambda>(function, go) p.
                if \<not> go then return function p
                else if cur p \<noteq> RPAREN then
                  bind (errorHere ''expected ')' at end of parameter list'')
                    (\<lambda>_. return function) p
                else bind (lift (nextToken U)) (\<lambda>_. return function) p)) p)"

definition parseFunctionDefinition ::
  "unicode \<Rightarrow> Statement option action \<Rightarrow> (nat \<Rightarrow> Expression option action) \<Rightarrow> nat
     \<Rightarrow> Function option action" where
  "parseFunctionDefinition U ps pe k p =
    (let startPos = tokenPos (currentToken p);
         body = (\<lambda>function.
           bind (lift (skipPeekNewlines U True)) (\<lambda>_ p.
             if peek p = INDENT then
               bind (lift (nextToken U)) (\<lambda>_.
               bind (statementLoop U ps isNL AddStatement k function) (\<lambda>function.
                 return (Some function))) p
             else if peek p = VAR \<or> peek p = RETURN \<or> peek p = PASS then
               bind (statementLoop U ps isNL AddStatement k function) (\<lambda>function.
                 return (Some function)) p
             else if peek p = EOF then return (Some function) p
             else
               bind (errorAtPeek (''expected indentation or statement, got '' @ peek p))
                 (\<lambda>_. return None) p));
         colon = (\<lambda>function p.
           if cur p \<noteq> COLON then
             bind (expectPeek U COLON) (\<lambda>ok.
               if \<not> ok then return None else body function) p
           else body function p);
         name = (\<lambda>isStatic.
           bind (lift (nextToken U)) (\<lambda>_ p.
             if cur p \<noteq> IDENT then
               bind (errorHere (''expected function name, got '' @ cur p)) (\<lambda>_. return None) p
             else
               (let function = setIsStatic (NewFunction (Literal (currentToken p)) startPos) isStatic in
                bind (lift (nextToken U)) (\<lambda>_ p.
                  if cur p \<noteq> LPAREN then
                    bind (errorHere (''expected '(' after function name, got '' @ cur p))
                      (\<lambda>_. return None) p
                  else
                    bind (parseParameterList U pe k function) (\<lambda>function p.
                      if cur p = ARROW then
                        bind (lift (nextToken U)) (\<lambda>_ p.
                          if cur p \<noteq> IDENT then
                            bind (errorHere (''expected return type, got '' @ cur p)) (\<lambda>_.
                            bind (recover U) (\<lambda>_. return None)) p
                          else
                            (let function = setReturnType function (Literal (currentToken p)) in
                             bind (lift (nextToken U)) (\<lambda>_. colon function) p)) p
                      else colon function p) p) p)))
     in
     if cur p = STATIC then
       bind (lift (nextToken U)) (\<lambda>_ p.
         if cur p \<noteq> FUNC then
           bind (errorHere (''expected 'func' after 'static', got '' @ cur p))
             (\<lambda>_. return None) p
         else name True p) p
     else name False p)"

text \<open>The loop of \<^verbatim>\<open>parseClassDefinition\<close> over the class body; \<open>pc\<close> is the recursive
  \<^verbatim>\<open>parseClassDefinition\<close>.\<close>

primrec classBodyLoop ::
  "unicode \<Rightarrow> Statement option action \<Rightarrow> Class option action
     \<Rightarrow> (nat \<Rightarrow> Expression option action) \<Rightarrow> nat \<Rightarrow> nat \<Rightarrow> Class \<Rightarrow> Class action" where
  "classBodyLoop U ps pc pe n 0 c = (\<lambda>p. None)"
| "classBodyLoop U ps pc pe n (Suc k) c = (\<lambda>p.
    if cur p \<noteq> DEDENT \<and> cur p \<noteq> EOF then
      (if cur p = NL \<or> cur p = INDENT then
         bind (lift (nextToken U)) (\<lambda>_. classBodyLoop U ps pc pe n k c) p
       else
         bind
           (if cur p = FUNC then
              bind (parseFunctionDefinition U ps pe n) (\<lambda>function.
                return (if function \<noteq> None then AddFunction c function else c))
            else if cur p = CLASS then
              bind pc (\<lambda>subClass.
                return (if subClass \<noteq> None then AddSubClass c subClass else c))
            else
              bind ps (\<lambda>stmt.
                return (case stmt of None \<Rightarrow> c | Some s \<Rightarrow> AddClassStatement c s)))
           (\<lambda>c. bind (lift (nextToken U)) (\<lambda>_. classBodyLoop U ps pc pe n k c)) p)
    else return c p)"

definition parseClassDefinitionBody ::
  "unicode \<Rightarrow> Statement option action \<Rightarrow> Class option action
     \<Rightarrow> (nat \<Rightarrow> Expression option action) \<Rightarrow> nat \<Rightarrow> Class option action" where
  "parseClassDefinitionBody U ps pc pe n p =
    (let pos = tokenPos (currentToken p);
         body = (\<lambda>c.
           bind (lift (skipPeekNewlines U False)) (\<lambda>_ p.
             if peek p = INDENT then
               bind (lift (nextToken U)) (\<lambda>_.
               bind (classBodyLoop U ps pc pe n n c) (\<lambda>c. return (Some c))) p
             else if peek p = VAR \<or> peek p = FUNC \<or> peek p = PASS \<or> peek p = CLASS then
               bind (classBodyLoop U ps pc pe n n c) (\<lambda>c. return (Some c)) p
             else
               bind (errorAtPeek (''expected indentation or statement, got '' @ peek p))
                 (\<lambda>_. return None) p));
         colon = (\<lambda>c p.
           if cur p \<noteq> COLON then
             bind (expectPeek U COLON) (\<lambda>ok. if \<not> ok then return None else body c) p
           else body c p)
     in
     bind (lift (nextToken U)) (\<lambda>_.
     bind (lift (skipNewlines U)) (\<lambda>_ p.
       if cur p \<noteq> IDENT then
         bind (errorHere (''expected class name, got '' @ cur p)) (\<lambda>_.
         bind (recover U) (\<lambda>_. return None)) p
       else
         (let c = NewClass (Literal (currentToken p)) pos in
          bind (lift (nextToken U)) (\<lambda>_ p.
            if cur p = EXTENDS then
              bind (lift (nextToken U)) (\<lambda>_ p.
                if cur p \<noteq> IDENT then
                  bind (errorHere (''expected parent class name, got '' @ cur p)) (\<lambda>_.
                  bind (recover U) (\<lambda>_. return None)) p
                else
                  (let c = setExtends c (Literal (currentToken p)) in
                   bind (lift (nextToken U)) (\<lambda>_. colon c) p)) p
            else colon c p) p))) p)"

definition startsSimpleBlock :: "TokenType \<Rightarrow> bool" where
  "startsSimpleBlock t \<longleftrightarrow>
     t = VAR \<or> t = RETURN \<or> t = PASS \<or> t = IF \<or> t = FOR \<or> t = WHILE"

text \<open>The loop \<^verbatim>\<open>for p.currentToken.Type == ELIF\<close> of \<^verbatim>\<open>parseIfStatement\<close>; the result is
  \<open>None\<close> when the loop left the method by \<^verbatim>\<open>return nil\<close>.\<close>

primrec elifLoop ::
  "unicode \<Rightarrow> Statement option action \<Rightarrow> (nat \<Rightarrow> Expression option action) \<Rightarrow> nat \<Rightarrow> nat
     \<Rightarrow> IfStatement \<Rightarrow> IfStatement option action" where
  "elifLoop U ps pe n 0 stmt = (\<lambda>p. None)"
| "elifLoop U ps pe n (Suc k) stmt = (\<lambda>p.
    if cur p = ELIF then
      bind (lift (nextToken U)) (\<lambda>_.
      bind (pe PREC_LOWEST) (\<lambda>elifCondition p.
        if elifCondition = None then
          bind (errorHere (''expected condition expression after 'elif'' @ [CHR 0x27])) (\<lambda>_.
          bind (recover U) (\<lambda>_. return None)) p
        else
          bind (expectPeek U COLON) (\<lambda>ok.
            if \<not> ok then return None
            else
              bind (lift (skipPeekNewlines U False)) (\<lambda>_ p.
                bind (if peek p = INDENT then lift (nextToken U) else return ()) (\<lambda>_.
                bind (statementLoop U ps isNLorINDENT (\<lambda>body s. body @ [s]) n []) (\<lambda>elifBody p.
                  (let stmt = AddElseIfBranch stmt elifCondition elifBody in
                   bind (if cur p = DEDENT then lift (nextToken U) else return ()) (\<lambda>_.
                     elifLoop U ps pe n k stmt) p))) p)) p)) p
    else return (Some stmt) p)"

definition parseIfStatement ::
  "unicode \<Rightarrow> Statement option action \<Rightarrow> (nat \<Rightarrow> Expression option action) \<Rightarrow> nat
     \<Rightarrow> IfStatement option action" where
  "parseIfStatement U ps pe n p =
    (let pos = tokenPos (currentToken p);
         elseBranch = (\<lambda>stmt p.
           if cur p = ELSE then
             bind (lift (nextToken U)) (\<lambda>_ p.
               (let elseBody =
                  bind (lift (skipPeekNewlines U False)) (\<lambda>_ p.
                    (let block =
                       bind (statementLoop U ps isNLorINDENT (\<lambda>body s. body @ [s]) n [])
                         (\<lambda>elseBody. return (Some (SetAlternative stmt elseBody)))
                     in
                     if peek p = INDENT then bind (lift (nextToken U)) (\<lambda>_. block) p
                     else if startsSimpleBlock (peek p) \<or> peek p = IDENT then block p
                     else
                       bind (errorAtPeek
                               (''expected indentation or statement after else, got '' @ peek p))
                         (\<lambda>_. return None) p))
                in
                if cur p = COLON then elseBody p
                else if peek p = COLON then
                  bind (expectPeek U COLON) (\<lambda>ok. if \<not> ok then return None else elseBody) p
                else
                  bind (errorHere (''expected ':' after 'else', got '' @ cur p))
                    (\<lambda>_. return None) p)) p
           else return (Some stmt) p);
         branches = (\<lambda>stmt.
           bind (statementLoop U ps isNLorINDENT AddConsequenceStatement n stmt) (\<lambda>stmt p.
             bind (if cur p = DEDENT then lift (nextToken U) else return ()) (\<lambda>_.
             bind (elifLoop U ps pe n n stmt) (\<lambda>r.
               case r of None \<Rightarrow> return None | Some stmt \<Rightarrow> elseBranch stmt)) p))
     in
     bind (lift (nextToken U)) (\<lambda>_.
     bind (pe PREC_LOWEST) (\<lambda>condition p.
       if condition = None then
         bind (errorHere (''expected condition expression after 'if'' @ [CHR 0x27])) (\<lambda>_.
         bind (recover U) (\<lambda>_. return None)) p
       else
         (let stmt = NewIfStatement pos condition in
          bind (expectPeek U COLON) (\<lambda>ok.
            if \<not> ok then return None
            else
              bind (lift (skipPeekNewlines U False)) (\<lambda>_ p.
                if peek p = INDENT then bind (lift (nextToken U)) (\<lambda>_. branches stmt) p
                else if startsSimpleBlock (peek p) then branches stmt p
                else
                  bind (errorAtPeek (''expected indentation or statement, got '' @ peek p))
                    (\<lambda>_. return None) p)) p))) p)"

definition parseForStatement ::
  "unicode \<Rightarrow> Statement option action \<Rightarrow> (nat \<Rightarrow> Expression option action) \<Rightarrow> nat
     \<Rightarrow> ForStatement option action" where
  "parseForStatement U ps pe n p =
    (let pos = tokenPos (currentToken p);
         collection = (\<lambda>iteratorName iteratorPos isTyped typeHint p.
           if cur p \<noteq> IN then
             bind (errorHere (''expected 'in' keyword, got '' @ cur p)) (\<lambda>_.
             bind (recover U) (\<lambda>_. return None)) p
           else
             bind (lift (nextToken U)) (\<lambda>_.
             bind (pe PREC_LOWEST) (\<lambda>collection p.
               if collection = None then
                 bind (errorHere (''expected collection expression after 'in'' @ [CHR 0x27])) (\<lambda>_.
                 bind (recover U) (\<lambda>_. return None)) p
               else
                 (let stmt = NewForStatement pos iteratorName iteratorPos collection isTyped;
                      stmt = (if isTyped then SetForTypeHint stmt typeHint else stmt);
                      block =
                        bind (statementLoop U ps isNLorINDENT AddForBodyStatement n stmt)
                          (\<lambda>stmt. return (Some stmt))
                  in
                  bind (expectPeek U COLON) (\<lambda>ok.
                    if \<not> ok then return None
                    else
                      bind (lift (skipPeekNewlines U False)) (\<lambda>_ p.
                        if peek p = INDENT then bind (lift (nextToken U)) (\<lambda>_. block) p
                        else if startsSimpleBlock (peek p) then block p
                        else
                          bind (errorAtPeek
                                  (''expected indentation or statement, got '' @ peek p))
                            (\<lambda>_. return None) p)) p))) p)
     in
     bind (lift (nextToken U)) (\<lambda>_ p.
       if cur p \<noteq> IDENT then
         bind (errorHere (''expected iterator variable name, got '' @ cur p)) (\<lambda>_.
         bind (recover U) (\<lambda>_. return None)) p
       else
         (let iteratorName = Literal (currentToken p);
              iteratorPos = tokenPos (currentToken p) in
          bind (lift (nextToken U)) (\<lambda>_ p.
            if cur p = COLON then
              bind (lift (nextToken U)) (\<lambda>_ p.
                if cur p \<noteq> IDENT then
                  bind (errorHere (''expected type identifier, got '' @ cur p)) (\<lambda>_.
                  bind (recover U) (\<lambda>_. return None)) p
                else
                  (let typeHint = Literal (currentToken p) in
                   bind (lift (nextToken U))
                     (\<lambda>_. collection iteratorName iteratorPos True typeHint) p)) p
            else collection iteratorName iteratorPos False [] p) p)) p)"

definition parseWhileStatement ::
  "unicode \<Rightarrow> Statement option action \<Rightarrow> (nat \<Rightarrow> Expression option action) \<Rightarrow> nat
     \<Rightarrow> WhileStatement option action" where
  "parseWhileStatement U ps pe n p =
    (let pos = tokenPos (currentToken p) in
     bind (lift (nextToken U)) (\<lambda>_.
     bind (pe PREC_LOWEST) (\<lambda>condition p.
       if condition = None then
         bind (errorHere (''expected condition expression after 'while'' @ [CHR 0x27])) (\<lambda>_.
         bind (recover U) (\<lambda>_. return None)) p
       else
         (let stmt = NewWhileStatement pos condition;
              block =
                bind (statementLoop U ps isNLorINDENT AddWhileBodyStatement n stmt)
                  (\<lambda>stmt. return (Some stmt))
          in
          bind (expectPeek U COLON) (\<lambda>ok.
            if \<not> ok then return None
            else
              bind (lift (skipPeekNewlines U False)) (\<lambda>_ p.
                if peek p = INDENT then bind (lift (nextToken U)) (\<lambda>_. block) p
                else if startsSimpleBlock (peek p) then block p
                else
                  bind (errorAtPeek (''expected indentation or statement, got '' @ peek p))
                    (\<lambda>_. return None) p)) p))) p)"

text \<open>The loop of \<^verbatim>\<open>parseMatchStatement\<close> over the branches. A \<^verbatim>\<open>break\<close> ends the loop
  and the method returns the statement built so far.\<close>

primrec matchLoop ::
  "unicode \<Rightarrow> Statement option action \<Rightarrow> (nat \<Rightarrow> Expression option action) \<Rightarrow> nat \<Rightarrow> nat
     \<Rightarrow> MatchStatement \<Rightarrow> MatchStatement action" where
  "matchLoop U ps pe n 0 stmt = (\<lambda>p. None)"
| "matchLoop U ps pe n (Suc k) stmt = (\<lambda>p.
    if cur p \<noteq> DEDENT \<and> cur p \<noteq> EOF then
      bind (pe PREC_LOWEST) (\<lambda>pattern p.
        if pattern = None then
          bind (errorHere ''expected pattern expression in match branch'') (\<lambda>_.
          bind (recover U) (\<lambda>_. return stmt)) p
        else
          (let branch = NewMatchBranch (tokenPos (currentToken p)) pattern;
               colon = (\<lambda>branch.
                 bind (expectPeek U COLON) (\<lambda>ok p.
                   if \<not> ok then return stmt p
                   else if peek p = NL then
                     bind (lift (nextToken U)) (\<lambda>_.
                     bind (expectPeek U INDENT) (\<lambda>ok.
                       if \<not> ok then return stmt
                       else
                         bind (statementLoop U ps (\<lambda>_. False) AddBranchBodyStatement n branch)
                           (\<lambda>branch. matchLoop U ps pe n k (AddBranch stmt branch)))) p
                   else
                     bind (lift (nextToken U)) (\<lambda>_.
                     bind ps (\<lambda>bodyStmt.
                       (let branch = (case bodyStmt of None \<Rightarrow> branch
                                      | Some s \<Rightarrow> AddBranchBodyStatement branch s) in
                        bind (lift (skipToNextLine U)) (\<lambda>_ p.
                          bind (if cur p = NL then lift (nextToken U) else return ()) (\<lambda>_.
                            matchLoop U ps pe n k (AddBranch stmt branch)) p)))) p))
           in
           if peek p = WHEN then
             bind (lift (nextToken U)) (\<lambda>_.
             bind (lift (nextToken U)) (\<lambda>_.
             bind (pe PREC_LOWEST) (\<lambda>guard.
               if guard = None then
                 bind (errorHere (''expected guard expression after 'when'' @ [CHR 0x27])) (\<lambda>_.
                 bind (recover U) (\<lambda>_. return stmt))
               else colon (SetGuard branch guard)))) p
           else colon branch p)) p
    else return stmt p)"

definition parseMatchStatement ::
  "unicode \<Rightarrow> Statement option action \<Rightarrow> (nat \<Rightarrow> Expression option action) \<Rightarrow> nat
     \<Rightarrow> MatchStatement option action" where
  "parseMatchStatement U ps pe n p =
    (let pos = tokenPos (currentToken p) in
     bind (lift (nextToken U)) (\<lambda>_.
     bind (pe PREC_LOWEST) (\<lambda>v p.
       if v = None then
         bind (errorHere (''expected expression after 'match'' @ [CHR 0x27])) (\<lambda>_.
         bind (recover U) (\<lambda>_. return None)) p
       else
         (let stmt = NewMatchStatement pos v in
          bind (expectPeek U COLON) (\<lambda>ok.
            if \<not> ok then return None
            else
              bind (lift (skipPeekNewlines U False)) (\<lambda>_.
              bind (lift (nextToken U)) (\<lambda>_.
              bind (matchLoop U ps pe n n stmt) (\<lambda>stmt. return (Some stmt))))) p))) p)"

text \<open>
  The conversion of a pointer to the interface \<^verbatim>\<open>Statement\<close> in \<^verbatim>\<open>return
  p.parseVarStatement()\<close> and its siblings: a nil pointer becomes an interface value that
  holds a nil pointer, which is not the nil interface.
\<close>

definition toStatement :: "('a \<Rightarrow> Statement) \<Rightarrow> PointerType \<Rightarrow> 'a option \<Rightarrow> Statement option" where
  "toStatement node ty r = (case r of None \<Rightarrow> Some (NilPointer ty) | Some v \<Rightarrow> Some (node v))"

definition parseStatementBody ::
  "unicode \<Rightarrow> Statement option action \<Rightarrow> Class option action
     \<Rightarrow> (nat \<Rightarrow> Expression option action) \<Rightarrow> nat \<Rightarrow> Statement option action" where
  "parseStatementBody U ps pc pe n p =
    (let t = cur p in
     if t = PASS then bind parsePassStatement (\<lambda>s. return (Some s)) p
     else if t = RETURN then bind (parseReturnStatement U pe) (\<lambda>s. return (Some s)) p
     else if t = VAR then
       bind (parseVarStatement U pe) (\<lambda>r. return (toStatement VarNode VarStatementPtr r)) p
     else if t = CONST' then
       bind (parseConstStatement U pe) (\<lambda>r. return (toStatement VarNode VarStatementPtr r)) p
     else if t = FUNC then
       bind (parseFunctionDefinition U ps pe n)
         (\<lambda>r. return (toStatement FunctionNode FunctionPtr r)) p
     else if t = CLASS then bind pc (\<lambda>r. return (toStatement ClassNode ClassPtr r)) p
     else if t = IF then
       bind (parseIfStatement U ps pe n) (\<lambda>r. return (toStatement IfNode IfStatementPtr r)) p
     else if t = WHILE then
       bind (parseWhileStatement U ps pe n)
         (\<lambda>r. return (toStatement WhileNode WhileStatementPtr r)) p
     else if t = FOR then
       bind (parseForStatement U ps pe n) (\<lambda>r. return (toStatement ForNode ForStatementPtr r)) p
     else if t = MATCH then
       bind (parseMatchStatement U ps pe n)
         (\<lambda>r. return (toStatement MatchNode MatchStatementPtr r)) p
     else if t = BREAK then bind parseBreakStatement (\<lambda>s. return (Some s)) p
     else if t = CONTINUE then bind parseContinueStatement (\<lambda>s. return (Some s)) p
     else if t = IDENT \<or> t = INT' \<or> t = FLOAT \<or> t = STRING \<or> t = RSTRING \<or> t = TRUE
             \<or> t = FALSE \<or> t = NULL \<or> t = SELF \<or> t = LPAREN then
       bind (parseExpressionStatement U pe) (\<lambda>s. return (Some s)) p
     else return None p)"

text \<open>\<^verbatim>\<open>parseStatement\<close> and \<^verbatim>\<open>parseClassDefinition\<close>, closing the recursion on the fuel.\<close>

fun parseStatement :: "unicode \<Rightarrow> nat \<Rightarrow> Statement option action"
  and parseClassDefinition :: "unicode \<Rightarrow> nat \<Rightarrow> Class option action" where
  "parseStatement U 0 p = None"
| "parseStatement U (Suc n) p =
     parseStatementBody U (parseStatement U n) (parseClassDefinition U n) (parseExpression U n) n p"
| "parseClassDefinition U 0 p = None"
| "parseClassDefinition U (Suc n) p =
     parseClassDefinitionBody U (parseStatement U n) (parseClassDefinition U n)
       (parseExpression U n) n p"

text \<open>The loop of \<^verbatim>\<open>parseGlobalScope\<close>. The type assertions \<^verbatim>\<open>stmt.(*ast.Function)\<close> and
  \<^verbatim>\<open>stmt.(*ast.Class)\<close> succeed on a nil pointer of that type as well.\<close>

primrec globalLoop :: "unicode \<Rightarrow> Statement option action \<Rightarrow> nat \<Rightarrow> Class \<Rightarrow> Class action" where
  "globalLoop U ps 0 c = (\<lambda>p. None)"
| "globalLoop U ps (Suc k) c = (\<lambda>p.
    if cur p \<noteq> EOF then
      bind ps (\<lambda>stmt.
      bind (lift (nextToken U)) (\<lambda>_.
        globalLoop U ps k
          (case stmt of
             None \<Rightarrow> c
           | Some (FunctionNode f) \<Rightarrow> AddFunction c (Some f)
           | Some (NilPointer FunctionPtr) \<Rightarrow> AddFunction c None
           | Some (ClassNode sub) \<Rightarrow> AddSubClass c (Some sub)
           | Some (NilPointer ClassPtr) \<Rightarrow> AddSubClass c None
           | Some s \<Rightarrow> AddClassStatement c s))) p
    else return c p)"

definition parseGlobalScope :: "unicode \<Rightarrow> nat \<Rightarrow> Class option action" where
  "parseGlobalScope U n =
    bind (globalLoop U (parseStatement U n) n
            (NewClass ''global scope'' \<lparr>PosLine = 1, PosColumn = 1, PosOffset = 0\<rparr>))
      (\<lambda>c. return (Some c))"

definition Parse :: "unicode \<Rightarrow> nat \<Rightarrow> AbstractSyntaxTree action" where
  "Parse U n =
    bind (parseGlobalScope U n) (\<lambda>c.
      case c of
        None \<Rightarrow> return NewAST
      | Some cl \<Rightarrow> return (NewAST\<lparr>RootClass := c, Classes := c # SubClasses cl\<rparr>))"

text \<open>The parser's entry point on a source text: \<^verbatim>\<open>NewParser(input)\<close>, then \<^verbatim>\<open>Parse()\<close> and
  \<^verbatim>\<open>Errors()\<close>. The result is \<open>None\<close> when the fuel does not suffice.\<close>

definition parseSource :: "unicode \<Rightarrow> nat \<Rightarrow> string \<Rightarrow> (panic + AbstractSyntaxTree \<times> Error list) option" where
  "parseSource U n inp =
    (case NewParser U inp of
       Inl e \<Rightarrow> Some (Inl e)
     | Inr p \<Rightarrow>
         (case Parse U n p of
            None \<Rightarrow> None
          | Some (Panicked e) \<Rightarrow> Some (Inl e)
          | Some (Returned tree p') \<Rightarrow> Some (Inr (tree, errors p'))))"

text \<open>\<^verbatim>\<open>ParseFile\<close>; \<open>base\<close> stands for \<^verbatim>\<open>filepath.Base\<close> of the standard library.\<close>

definition ParseFile ::
  "unicode \<Rightarrow> (string \<Rightarrow> string) \<Rightarrow> nat \<Rightarrow> string \<Rightarrow> string
     \<Rightarrow> (panic + AbstractSyntaxTree \<times> Error list) option" where
  "ParseFile U base n filePath content =
    (case NewParserWithOptions U content ErrorModePanic of
       Inl e \<Rightarrow> Some (Inl e)
     | Inr parser \<Rightarrow>
         (case Parse U n parser of
            None \<Rightarrow> None
          | Some (Panicked e) \<Rightarrow> Some (Inl e)
          | Some (Returned tree p') \<Rightarrow>
              Some (Inr (case RootClass tree of
                           None \<Rightarrow> tree
                         | Some c \<Rightarrow> tree\<lparr>RootClass := Some (setClassName c (base filePath))\<rparr>,
                         errors p'))))"

end
